theory Spec2Isabelle
  imports Complex_Main
begin

section \<open>JavaScript values used by the resolver\<close>

text \<open>
  JavaScript numbers are modelled as reals (NaN and the infinities are not represented).
  The operator \<^verbatim>\<open>a || b\<close> yields \<open>b\<close> when \<open>a\<close> is falsy; a number is falsy when
  it is \<open>undefined\<close> or zero, a string when it is \<open>undefined\<close> or empty.  An optional
  chain \<^verbatim>\<open>c?.f\<close> is \<open>undefined\<close> when \<open>c\<close> is.
\<close>

definition jsTruthyNum :: "real option \<Rightarrow> bool" where
  "jsTruthyNum v = (case v of None \<Rightarrow> False | Some r \<Rightarrow> r \<noteq> 0)"

definition jsOrNum :: "real option \<Rightarrow> real \<Rightarrow> real" where
  "jsOrNum a b = (case a of None \<Rightarrow> b | Some r \<Rightarrow> if r \<noteq> 0 then r else b)"

definition jsOrStr :: "string option \<Rightarrow> string \<Rightarrow> string" where
  "jsOrStr a b = (case a of None \<Rightarrow> b | Some s \<Rightarrow> if s \<noteq> [] then s else b)"

section \<open>Position resolution (useStageDevicePosition)\<close>

record ThreeDimensionalProperties =
  x :: real
  y :: real
  z :: real
  rX :: real
  rY :: real
  rZ :: real
  directivity :: string

text \<open>
  The effect of the hook: \<open>position\<close> is the hook's current state (initially
  \<^verbatim>\<open>DefaultThreeDimensionalProperties\<close>, a constant of the api-types package); the six
  other arguments are what the selectors returned.  The state is only replaced when
  group, stage member and stage device are all available.
\<close>

definition useStageDevicePosition ::
  "ThreeDimensionalProperties \<Rightarrow>
   ThreeDimensionalProperties option \<Rightarrow> ThreeDimensionalProperties option \<Rightarrow>
   ThreeDimensionalProperties option \<Rightarrow> ThreeDimensionalProperties option \<Rightarrow>
   ThreeDimensionalProperties option \<Rightarrow> ThreeDimensionalProperties option \<Rightarrow>
   ThreeDimensionalProperties" where
  "useStageDevicePosition position grp customGroupPosition stageMember
      customStageMemberPosition stageDevice customStageDevicePosition =
   (case (grp, stageMember, stageDevice) of
      (Some g, Some m, Some d) \<Rightarrow>
        \<lparr> x = jsOrNum (map_option x customGroupPosition) (x g)
              + jsOrNum (map_option x customStageMemberPosition) (x m)
              + jsOrNum (map_option x customStageDevicePosition) (x d),
          y = jsOrNum (map_option y customGroupPosition) (y g)
              + jsOrNum (map_option y customStageMemberPosition) (y m)
              + jsOrNum (map_option y customStageDevicePosition) (y d),
          z = jsOrNum (map_option z customGroupPosition) (z g)
              + jsOrNum (map_option z customStageMemberPosition) (z m)
              + jsOrNum (map_option z customStageDevicePosition) (z d),
          rX = jsOrNum (map_option rX customGroupPosition) (rX g)
              + jsOrNum (map_option rX customStageMemberPosition) (rX m)
              + jsOrNum (map_option rX customStageDevicePosition) (rX d),
          rY = jsOrNum (map_option rY customGroupPosition) (rY g)
              + jsOrNum (map_option rY customStageMemberPosition) (rY m)
              + jsOrNum (map_option rY customStageDevicePosition) (rY d),
          rZ = jsOrNum (map_option rZ customGroupPosition) (rZ g)
              + jsOrNum (map_option rZ customStageMemberPosition) (rZ m)
              + jsOrNum (map_option rZ customStageDevicePosition) (rZ d),
          directivity =
            jsOrStr (map_option directivity customGroupPosition) (directivity g) \<rparr>
    | _ \<Rightarrow> position)"

text \<open>A pose that is zero on every axis but the given \<open>x\<close>, used in the examples.\<close>

definition poseX :: "real \<Rightarrow> ThreeDimensionalProperties" where
  "poseX v = \<lparr> x = v, y = 0, z = 0, rX = 0, rY = 0, rZ = 0, directivity = ''omni'' \<rparr>"

section \<open>Gain resolution (the renderers of useAudioRenderer)\<close>

record VolumeProperties =
  volume :: real
  muted :: bool

text \<open>
  The value the gain effect of a renderer passes to \<^verbatim>\<open>gainNode.gain.setValueAtTime\<close>.
  The four renderers carry the same chain; \<open>customVolume\<close> is the selected
  device-specific override, if any.
\<close>

definition rendererGain :: "VolumeProperties option \<Rightarrow> VolumeProperties \<Rightarrow> real" where
  "rendererGain customVolume entity =
     (if (case customVolume of None \<Rightarrow> False | Some c \<Rightarrow> muted c) then 0
      else if jsTruthyNum (map_option volume customVolume) then volume (the customVolume)
      else if muted entity then 0
      else volume entity)"

definition AudioTrackRenderer_gain :: "VolumeProperties option \<Rightarrow> VolumeProperties \<Rightarrow> real" where
  "AudioTrackRenderer_gain customVolume audioTrack = rendererGain customVolume audioTrack"

definition StageDeviceRenderer_gain :: "VolumeProperties option \<Rightarrow> VolumeProperties \<Rightarrow> real" where
  "StageDeviceRenderer_gain customVolume stageDevice = rendererGain customVolume stageDevice"

definition StageMemberRenderer_gain :: "VolumeProperties option \<Rightarrow> VolumeProperties \<Rightarrow> real" where
  "StageMemberRenderer_gain customVolume stageMember = rendererGain customVolume stageMember"

definition GroupRenderer_gain :: "VolumeProperties option \<Rightarrow> VolumeProperties \<Rightarrow> real" where
  "GroupRenderer_gain customVolume grp = rendererGain customVolume grp"

section \<open>Media session manager (hooks/useMediasoup/util.ts)\<close>

text \<open>
  A request is emitted on the socket together with an acknowledgement callback.  The
  model of a function returns the requests it emitted, in order, and how its promise
  settles.  What the socket does with one emit is an argument of the model: \<open>None\<close> when
  the callback is never invoked, otherwise the arguments the callback receives.  An
  error argument counts as an error when it is truthy (a non-empty string).
\<close>

datatype request =
    GetRTPCapabilities
  | CreateTransport
  | ConnectTransport string
  | CloseTransport string
  | CreateProducer string
  | PauseProducer string
  | ResumeProducer string
  | CloseProducer string
  | CreateConsumer string string
  | PauseConsumer string
  | ResumeConsumer string
  | CloseConsumer string

datatype 'a promise = Resolved 'a | Rejected string | Pending

text \<open>A call that throws before it returns anything, or returns.\<close>

datatype 'a call = Throws string | Returns 'a

type_synonym ack = "string option option"

type_synonym 'a ackData = "(string option \<times> 'a) option"

definition jsTruthyStr :: "string option \<Rightarrow> bool" where
  "jsTruthyStr e = (case e of None \<Rightarrow> False | Some s \<Rightarrow> s \<noteq> [])"

text \<open>
  The mediasoup-client objects, reduced to the members the functions touch:
  \<^verbatim>\<open>id\<close>, \<^verbatim>\<open>paused\<close> and \<^verbatim>\<open>closed\<close>.  \<^verbatim>\<open>pause()\<close> sets \<^verbatim>\<open>paused\<close>, \<^verbatim>\<open>resume()\<close> clears it.
\<close>

record Producer =
  producer_id :: string
  producer_paused :: bool
  producer_closed :: bool

record Consumer =
  consumer_id :: string
  consumer_paused :: bool
  consumer_closed :: bool

datatype Direction = Send | Receive

record Transport =
  transport_id :: string
  direction :: Direction
  transport_closed :: bool

text \<open>The server's answer to create-transport and to create-consumer.\<close>

record TransportOptions =
  options_id :: string

record ConsumerData =
  data_id :: string
  data_producerId :: string
  data_paused :: bool

definition getRTPCapabilities :: "'caps ackData \<Rightarrow> request list \<times> 'caps promise" where
  "getRTPCapabilities ack =
     ([GetRTPCapabilities],
      case ack of
        None \<Rightarrow> Pending
      | Some (error, retrievedRtpCapabilities) \<Rightarrow>
          if jsTruthyStr error then Rejected (the error)
          else Resolved retrievedRtpCapabilities)"

text \<open>
  \<^verbatim>\<open>createWebRTCTransport\<close>: on an acknowledgement without error the device makes the
  transport from the server's options, inside the acknowledgement callback.
  \<open>device_creates dir options\<close> tells whether that call
  (\<^verbatim>\<open>device.createSendTransport\<close> or \<^verbatim>\<open>device.createRecvTransport\<close>) returns; when it
  throws, the callback is left before \<^verbatim>\<open>resolve\<close> and nothing rejects, so the promise
  never settles and no transport exists.  A transport that is made is open and has the id
  of the options.  The handlers registered on it (connect, connectionstatechange,
  produce) run on later events of the transport and emit nothing while it is created.
\<close>

definition createWebRTCTransport ::
  "TransportOptions ackData \<Rightarrow> (Direction \<Rightarrow> TransportOptions \<Rightarrow> bool) \<Rightarrow> Direction \<Rightarrow>
   request list \<times> Transport promise" where
  "createWebRTCTransport ack device_creates dir =
     ([CreateTransport],
      case ack of
        None \<Rightarrow> Pending
      | Some (error, transportOptions) \<Rightarrow>
          if jsTruthyStr error then Rejected (the error)
          else if device_creates dir transportOptions then
            Resolved \<lparr> transport_id = options_id transportOptions, direction = dir,
                       transport_closed = False \<rparr>
          else Pending)"

definition pauseProducer :: "ack \<Rightarrow> Producer \<Rightarrow> request list \<times> Producer promise" where
  "pauseProducer ack producer =
     ([PauseProducer (producer_id producer)],
      case ack of
        None \<Rightarrow> Pending
      | Some error \<Rightarrow>
          if jsTruthyStr error then Rejected (the error)
          else Resolved (producer\<lparr> producer_paused := True \<rparr>))"

definition resumeProducer :: "ack \<Rightarrow> Producer \<Rightarrow> request list \<times> Producer promise" where
  "resumeProducer ack producer =
     ([ResumeProducer (producer_id producer)],
      case ack of
        None \<Rightarrow> Pending
      | Some error \<Rightarrow>
          if jsTruthyStr error then Rejected (the error)
          else Resolved (producer\<lparr> producer_paused := False \<rparr>))"

definition stopProducer :: "ack \<Rightarrow> Producer \<Rightarrow> request list \<times> Producer promise" where
  "stopProducer ack producer =
     ([CloseProducer (producer_id producer)],
      case ack of
        None \<Rightarrow> Pending
      | Some error \<Rightarrow>
          if jsTruthyStr error then Rejected (the error)
          else Resolved (producer\<lparr> producer_closed := True \<rparr>))"

text \<open>
  \<^verbatim>\<open>createConsumer\<close>: \<open>transport_consume\<close> is \<^verbatim>\<open>transport.consume\<close> of mediasoup-client,
  \<open>None\<close> when its promise rejects; that rejection is not passed on, so the promise of
  \<^verbatim>\<open>createConsumer\<close> then never settles.
\<close>

definition createConsumer ::
  "ConsumerData ackData \<Rightarrow> (ConsumerData \<Rightarrow> Consumer option) \<Rightarrow> string \<Rightarrow> string \<Rightarrow>
   request list \<times> Consumer promise" where
  "createConsumer ack transport_consume transportId producerId =
     ([CreateConsumer producerId transportId],
      case ack of
        None \<Rightarrow> Pending
      | Some (error, data) \<Rightarrow>
          if jsTruthyStr error then Rejected (the error)
          else (case transport_consume data of
                  None \<Rightarrow> Pending
                | Some consumer \<Rightarrow>
                    if data_paused data then Resolved (consumer\<lparr> consumer_paused := True \<rparr>)
                    else Resolved consumer))"

definition resumeConsumer :: "ack \<Rightarrow> Consumer \<Rightarrow> request list \<times> Consumer promise" where
  "resumeConsumer ack consumer =
     (if consumer_paused consumer then
        ([ResumeConsumer (consumer_id consumer)],
         case ack of
           None \<Rightarrow> Pending
         | Some error \<Rightarrow>
             if jsTruthyStr error then Rejected (the error)
             else Resolved (consumer\<lparr> consumer_paused := False \<rparr>))
      else ([], Rejected ''Consumer is paused yet''))"

definition pauseConsumer :: "ack \<Rightarrow> Consumer \<Rightarrow> request list \<times> Consumer promise" where
  "pauseConsumer ack consumer =
     (if \<not> consumer_paused consumer then
        ([PauseConsumer (consumer_id consumer)],
         case ack of
           None \<Rightarrow> Pending
         | Some error \<Rightarrow>
             if jsTruthyStr error then Rejected (the error)
             else Resolved (consumer\<lparr> consumer_paused := True \<rparr>))
      else ([], Rejected ''Consumer is not paused''))"

text \<open>
  \<^verbatim>\<open>consume\<close>: after the consumer is created, a paused consumer is resumed before the
  promise resolves (the second test of \<^verbatim>\<open>paused\<close> only writes to the error log).
\<close>

definition consume ::
  "ConsumerData ackData \<Rightarrow> (ConsumerData \<Rightarrow> Consumer option) \<Rightarrow> ack \<Rightarrow> string \<Rightarrow> string \<Rightarrow>
   request list \<times> Consumer promise" where
  "consume createAck transport_consume resumeAck transportId producerId =
     (case createConsumer createAck transport_consume transportId producerId of
        (reqs, Resolved localConsumer) \<Rightarrow>
          if consumer_paused localConsumer then
            (case resumeConsumer resumeAck localConsumer of
               (reqs', Resolved c) \<Rightarrow> (reqs @ reqs', Resolved c)
             | (reqs', Rejected e) \<Rightarrow> (reqs @ reqs', Rejected e)
             | (reqs', Pending) \<Rightarrow> (reqs @ reqs', Pending))
          else (reqs, Resolved localConsumer)
      | (reqs, Rejected e) \<Rightarrow> (reqs, Rejected e)
      | (reqs, Pending) \<Rightarrow> (reqs, Pending))"

text \<open>
  \<^verbatim>\<open>Promise.all\<close> of two promises: it rejects as soon as one of them rejects, with the
  reason of the rejection that happens first (\<open>secondFirst\<close> tells which when both reject).
\<close>

fun promiseAll :: "'a promise \<Rightarrow> 'b promise \<Rightarrow> bool \<Rightarrow> ('a \<times> 'b) promise" where
  "promiseAll (Resolved a) (Resolved b) secondFirst = Resolved (a, b)"
| "promiseAll (Rejected e) (Rejected e') secondFirst = Rejected (if secondFirst then e' else e)"
| "promiseAll (Rejected e) _ secondFirst = Rejected e"
| "promiseAll _ (Rejected e') secondFirst = Rejected e'"
| "promiseAll _ _ secondFirst = Pending"

fun settled :: "'a promise \<Rightarrow> 'a list" where
  "settled (Resolved a) = [a]"
| "settled _ = []"

record Session =
  sendTransport :: Transport
  receiveTransport :: Transport

text \<open>
  \<^verbatim>\<open>connect\<close>: \<open>newDevice\<close> is the constructor call \<^verbatim>\<open>new Device()\<close> of mediasoup-client,
  \<open>Some e\<close> when it throws \<open>e\<close> (an unsupported browser); it runs before anything else, so
  \<^verbatim>\<open>connect\<close> then throws and returns no promise.  \<open>device_load\<close> is \<^verbatim>\<open>device.load\<close>
  (\<open>Some e\<close> when it rejects with \<open>e\<close>).  When \<^verbatim>\<open>connect\<close> returns, the result holds the
  requests emitted, the transports that exist afterwards, and how the promise settles.
\<close>

definition connect ::
  "string option \<Rightarrow> 'caps ackData \<Rightarrow> ('caps \<Rightarrow> string option) \<Rightarrow>
   (Direction \<Rightarrow> TransportOptions \<Rightarrow> bool) \<Rightarrow> TransportOptions ackData \<Rightarrow>
   TransportOptions ackData \<Rightarrow> bool \<Rightarrow>
   (request list \<times> Transport list \<times> Session promise) call" where
  "connect newDevice capsAck device_load device_creates sendAck receiveAck receiveFirst =
     (case newDevice of
        Some thrown \<Rightarrow> Throws thrown
      | None \<Rightarrow>
          Returns
            (case getRTPCapabilities capsAck of
               (reqs, Resolved rtpCapabilities) \<Rightarrow>
                 (case device_load rtpCapabilities of
                    Some e \<Rightarrow> (reqs, [], Rejected e)
                  | None \<Rightarrow>
                      (case (createWebRTCTransport sendAck device_creates Send,
                             createWebRTCTransport receiveAck device_creates Receive) of
                         ((reqsS, send), (reqsR, recv)) \<Rightarrow>
                           (reqs @ reqsS @ reqsR, settled send @ settled recv,
                            case promiseAll send recv receiveFirst of
                              Resolved transports \<Rightarrow>
                                Resolved \<lparr> sendTransport = fst transports,
                                           receiveTransport = snd transports \<rparr>
                            | Rejected e \<Rightarrow> Rejected e
                            | Pending \<Rightarrow> Pending)))
             | (reqs, Rejected e) \<Rightarrow> (reqs, [], Rejected e)
             | (reqs, Pending) \<Rightarrow> (reqs, [], Pending)))"

text \<open>The transport the device makes from the server's options.\<close>

definition openTransport :: "Direction \<Rightarrow> TransportOptions \<Rightarrow> Transport" where
  "openTransport dir options =
     \<lparr> transport_id = options_id options, direction = dir, transport_closed = False \<rparr>"

section \<open>Device refresh (enumerateDevices, refreshMediaDevices)\<close>

text \<open>
  \<^verbatim>\<open>refreshMediaDevices\<close> compares arrays with \<^verbatim>\<open>!==\<close>, which compares the identity of
  two arrays, not their contents.  An array therefore carries the address it was
  allocated at; a function that creates arrays takes the next free address and returns the
  one after its allocations.  An allocation never returns the address of an array that
  is still in use.
\<close>

record 'a jsArray =
  addr :: nat
  elems :: "'a list"

record WebMediaDevice =
  device_id :: string
  device_label :: string

datatype MediaDeviceKind = videoinput | audioinput | audiooutput

record MediaDeviceInfo =
  kind :: MediaDeviceKind
  deviceId :: string
  label :: string

text \<open>\<^verbatim>\<open>index.toString()\<close>: the decimal digits of an array index.\<close>

fun toString :: "nat \<Rightarrow> string" where
  "toString n =
     (if n < 10 then [char_of (48 + n)]
      else toString (n div 10) @ [char_of (48 + n mod 10)])"

declare toString.simps [simp del]

definition webMediaDevice :: "MediaDeviceInfo \<Rightarrow> WebMediaDevice list \<Rightarrow> nat \<Rightarrow> WebMediaDevice" where
  "webMediaDevice device devices index =
     \<lparr> device_id =
         (if deviceId device \<noteq> [] then deviceId device
          else if length devices = 1 then ''default'' else toString index),
       device_label = (if label device \<noteq> [] then label device else ''Standard'') \<rparr>"

text \<open>
  The body of the \<^verbatim>\<open>forEach\<close> of \<^verbatim>\<open>enumerateDevices\<close>, on the three arrays
  (video inputs, audio inputs, audio outputs), and the loop over the devices with their
  index.
\<close>

definition pushDevice ::
  "MediaDeviceInfo \<Rightarrow> nat \<Rightarrow> WebMediaDevice list \<times> WebMediaDevice list \<times> WebMediaDevice list \<Rightarrow>
   WebMediaDevice list \<times> WebMediaDevice list \<times> WebMediaDevice list" where
  "pushDevice device index arrays =
     (case arrays of
        (inputVideo, inputAudio, outputAudio) \<Rightarrow>
          (case kind device of
             videoinput \<Rightarrow>
               (inputVideo @ [webMediaDevice device inputVideo index], inputAudio, outputAudio)
           | audioinput \<Rightarrow>
               (inputVideo, inputAudio @ [webMediaDevice device inputAudio index], outputAudio)
           | audiooutput \<Rightarrow>
               (inputVideo, inputAudio, outputAudio @ [webMediaDevice device outputAudio index])))"

fun forEachDevice ::
  "MediaDeviceInfo list \<Rightarrow> nat \<Rightarrow> WebMediaDevice list \<times> WebMediaDevice list \<times> WebMediaDevice list \<Rightarrow>
   WebMediaDevice list \<times> WebMediaDevice list \<times> WebMediaDevice list" where
  "forEachDevice [] index arrays = arrays"
| "forEachDevice (device # devices) index arrays =
     forEachDevice devices (Suc index) (pushDevice device index arrays)"

record EnumeratedDevices =
  inputAudioDevices :: "WebMediaDevice jsArray"
  inputVideoDevices :: "WebMediaDevice jsArray"
  outputAudioDevices :: "WebMediaDevice jsArray"

record MediasoupDevice = EnumeratedDevices +
  mediasoupDevice_id :: string

text \<open>
  What \<^verbatim>\<open>enumerateDevices\<close> finds when it reads the global \<^verbatim>\<open>navigator\<close>: the
  identifier is not declared (reading it throws a ReferenceError); it is declared and
  falsy; it has no \<^verbatim>\<open>mediaDevices\<close> (the call on it throws a TypeError); the browser's
  enumeration rejects; or the browser's enumeration resolves with a list of devices.
\<close>

datatype Navigator =
    Undeclared
  | Falsy
  | NoMediaDevices
  | EnumerationRejects
  | Enumerates "MediaDeviceInfo list"

text \<open>
  \<^verbatim>\<open>enumerateDevices\<close>: an exception in the executor of the promise rejects the promise;
  a rejection of the browser's enumeration is not passed on, so the promise then never
  settles.  The three arrays are created by the call itself.
\<close>

definition enumerateDevices :: "nat \<Rightarrow> Navigator \<Rightarrow> EnumeratedDevices promise \<times> nat" where
  "enumerateDevices free navigator =
     (case navigator of
        Undeclared \<Rightarrow> (Rejected ''ReferenceError: navigator is not defined'', free)
      | Falsy \<Rightarrow>
          (Resolved
             \<lparr> inputAudioDevices = \<lparr> addr = free, elems = [] \<rparr>,
               inputVideoDevices = \<lparr> addr = free + 1, elems = [] \<rparr>,
               outputAudioDevices = \<lparr> addr = free + 2, elems = [] \<rparr> \<rparr>, free + 3)
      | NoMediaDevices \<Rightarrow>
          (Rejected ''TypeError: cannot read properties of undefined'', free)
      | EnumerationRejects \<Rightarrow> (Pending, free)
      | Enumerates devices \<Rightarrow>
          (case forEachDevice devices 0 ([], [], []) of
             (inputVideo, inputAudio, outputAudio) \<Rightarrow>
               (Resolved
                  \<lparr> inputAudioDevices = \<lparr> addr = free + 1, elems = inputAudio \<rparr>,
                    inputVideoDevices = \<lparr> addr = free, elems = inputVideo \<rparr>,
                    outputAudioDevices = \<lparr> addr = free + 2, elems = outputAudio \<rparr> \<rparr>,
                free + 3)))"

text \<open>The payload of the change-device event: the id and the lists that were set.\<close>

record ChangeDevice =
  change_id :: string
  change_inputAudioDevices :: "WebMediaDevice jsArray option"
  change_inputVideoDevices :: "WebMediaDevice jsArray option"
  change_outputAudioDevices :: "WebMediaDevice jsArray option"

text \<open>
  The arrays of the last known device record are in use while the devices are
  enumerated, so the enumeration allocates above their addresses.
\<close>

definition nextFree :: "nat \<Rightarrow> MediasoupDevice \<Rightarrow> nat" where
  "nextFree free currentDevice =
     max free
       (Suc (max (addr (inputAudioDevices currentDevice))
              (max (addr (inputVideoDevices currentDevice))
                 (addr (outputAudioDevices currentDevice)))))"

text \<open>
  \<^verbatim>\<open>refreshMediaDevices\<close>: \<open>socket\<close> tells whether a socket was passed, \<open>emitted\<close> is what
  \<^verbatim>\<open>socket.emit\<close> returns.  The result holds the change-device events emitted and how
  the promise settles.
\<close>

definition refreshMediaDevices ::
  "nat \<Rightarrow> Navigator \<Rightarrow> MediasoupDevice \<Rightarrow> bool \<Rightarrow> bool \<Rightarrow>
   ChangeDevice list \<times> bool promise" where
  "refreshMediaDevices free navigator currentDevice socket emitted =
     (if socket then
        (case fst (enumerateDevices (nextFree free currentDevice) navigator) of
           Resolved devices \<Rightarrow>
             (let update0 = \<lparr> change_id = mediasoupDevice_id currentDevice,
                              change_inputAudioDevices = None, change_inputVideoDevices = None,
                              change_outputAudioDevices = None \<rparr>;
                  (shouldUpdate1, update1) =
                    (if addr (inputAudioDevices currentDevice) \<noteq> addr (inputAudioDevices devices)
                     then (True, update0\<lparr> change_inputAudioDevices := Some (inputAudioDevices devices) \<rparr>)
                     else (False, update0));
                  (shouldUpdate2, update2) =
                    (if addr (inputVideoDevices currentDevice) \<noteq> addr (inputVideoDevices devices)
                     then (True, update1\<lparr> change_inputVideoDevices := Some (inputVideoDevices devices) \<rparr>)
                     else (shouldUpdate1, update1));
                  (shouldUpdate3, update3) =
                    (if addr (outputAudioDevices currentDevice) \<noteq> addr (outputAudioDevices devices)
                     then (True, update2\<lparr> change_outputAudioDevices := Some (outputAudioDevices devices) \<rparr>)
                     else (shouldUpdate2, update2))
              in if shouldUpdate3 then ([update3], Resolved emitted) else ([], Resolved False))
         | Rejected e \<Rightarrow> ([], Rejected e)
         | Pending \<Rightarrow> ([], Pending))
      else ([], Resolved False))"

section \<open>Indexed entity store (redux/reducers)\<close>

text \<open>
  An entity or a payload is a JavaScript object: a finite map from field names to values.
  The reducers read only the id and the parent-reference fields, which are strings; the
  values of the other fields are kept as text.  Reading a missing field gives
  \<^verbatim>\<open>undefined\<close>, which as a property key is the string \<^verbatim>\<open>"undefined"\<close>.  Ids are taken not
  to be names of members of \<^verbatim>\<open>Object.prototype\<close> and not to contain path characters.
\<close>

type_synonym entity = "string \<rightharpoonup> string"

definition propKey :: "entity \<Rightarrow> string \<Rightarrow> string" where
  "propKey e f = (case e f of None \<Rightarrow> ''undefined'' | Some v \<Rightarrow> v)"

text \<open>
  lodash: \<^verbatim>\<open>without(array, value)\<close> is the array without every occurrence of the value, and
  the empty array when the array is \<^verbatim>\<open>undefined\<close>; \<^verbatim>\<open>omit(object, key)\<close> is the object
  without the key, and the empty object when the object is \<^verbatim>\<open>undefined\<close>.
\<close>

definition without :: "string list option \<Rightarrow> string \<Rightarrow> string list" where
  "without array v = (case array of None \<Rightarrow> [] | Some ids \<Rightarrow> filter (\<lambda>a. a \<noteq> v) ids)"

definition omit :: "('k \<rightharpoonup> 'v) option \<Rightarrow> 'k \<Rightarrow> ('k \<rightharpoonup> 'v)" where
  "omit object k = (case object of None \<Rightarrow> Map.empty | Some m \<Rightarrow> m(k := None))"

text \<open>
  Modelled from the spec: \<^verbatim>\<open>upsert\<close> (redux/utils/upsert, which the reducers import) is
  not among the source files.  The spec has an add "upsert (not duplicate)" the id into a
  sequence, "initializing an empty sequence if the parent bucket doesn't exist yet": the
  value is appended unless the sequence already holds it.
\<close>

definition upsert :: "string list option \<Rightarrow> string \<Rightarrow> string list" where
  "upsert array v =
     (case array of None \<Rightarrow> [v] | Some ids \<Rightarrow> if v \<in> set ids then ids else ids @ [v])"

text \<open>The object spread \<^verbatim>\<open>{...a, ...b}\<close>, where \<open>a\<close> may be \<^verbatim>\<open>undefined\<close>.\<close>

definition spread :: "entity option \<Rightarrow> entity \<Rightarrow> entity" where
  "spread a b = (case a of None \<Rightarrow> Map.empty | Some e \<Rightarrow> e) ++ b"

record StageJoinedPayload =
  customGroupPositions :: "entity list option"
  customStageMemberVolumes :: "entity list option"
  videoTracks :: "entity list option"

datatype action =
    StageLeft
  | RESET
  | StageJoined StageJoinedPayload
  | CustomGroupPositionAdded entity
  | CustomGroupPositionChanged entity
  | CustomGroupPositionRemoved string
  | CustomStageMemberVolumeAdded entity
  | CustomStageMemberVolumeChanged entity
  | CustomStageMemberVolumeRemoved string
  | LocalDeviceReady entity
  | DeviceAdded entity
  | DeviceChanged entity
  | DeviceRemoved string
  | VideoTrackAdded entity
  | VideoTrackChanged entity
  | VideoTrackRemoved string
  | OtherAction string

subsection \<open>reduceCustomGroupPositions\<close>

record CustomGroupPositions =
  byId :: "string \<rightharpoonup> entity"
  byDevice :: "string \<rightharpoonup> string list"
  byGroup :: "string \<rightharpoonup> string list"
  byDeviceAndGroup :: "string \<rightharpoonup> (string \<rightharpoonup> string)"
  allIds :: "string list"

definition initialCustomGroupPositions :: CustomGroupPositions where
  "initialCustomGroupPositions =
     \<lparr> CustomGroupPositions.byId = Map.empty, CustomGroupPositions.byDevice = Map.empty,
       CustomGroupPositions.byGroup = Map.empty,
       CustomGroupPositions.byDeviceAndGroup = Map.empty, CustomGroupPositions.allIds = [] \<rparr>"

definition addCustomGroupPosition :: "CustomGroupPositions \<Rightarrow> entity \<Rightarrow> CustomGroupPositions" where
  "addCustomGroupPosition state customGroup =
     state\<lparr>
       CustomGroupPositions.byId :=
         (CustomGroupPositions.byId state)(propKey customGroup ''_id'' \<mapsto> customGroup),
       CustomGroupPositions.byGroup :=
         (CustomGroupPositions.byGroup state)(propKey customGroup ''groupId'' \<mapsto>
           (case CustomGroupPositions.byGroup state (propKey customGroup ''groupId'') of
              Some ids \<Rightarrow> ids @ [propKey customGroup ''_id'']
            | None \<Rightarrow> [propKey customGroup ''_id''])),
       CustomGroupPositions.byDevice :=
         (CustomGroupPositions.byDevice state)(propKey customGroup ''deviceId'' \<mapsto>
           (case CustomGroupPositions.byDevice state (propKey customGroup ''deviceId'') of
              Some ids \<Rightarrow> ids @ [propKey customGroup ''_id'']
            | None \<Rightarrow> [propKey customGroup ''_id''])),
       CustomGroupPositions.byDeviceAndGroup :=
         (CustomGroupPositions.byDeviceAndGroup state)(propKey customGroup ''deviceId'' \<mapsto>
           (case CustomGroupPositions.byDeviceAndGroup state (propKey customGroup ''deviceId'') of
              Some m \<Rightarrow> m
            | None \<Rightarrow> Map.empty)(propKey customGroup ''groupId'' \<mapsto> propKey customGroup ''_id'')),
       CustomGroupPositions.allIds :=
         upsert (Some (CustomGroupPositions.allIds state)) (propKey customGroup ''_id'') \<rparr>"

definition reduceCustomGroupPositions :: "CustomGroupPositions \<Rightarrow> action \<Rightarrow> CustomGroupPositions" where
  "reduceCustomGroupPositions state act =
     (case act of
        StageLeft \<Rightarrow> initialCustomGroupPositions
      | RESET \<Rightarrow> initialCustomGroupPositions
      | StageJoined payload \<Rightarrow>
          (case customGroupPositions payload of
             Some entities \<Rightarrow> foldl addCustomGroupPosition state entities
           | None \<Rightarrow> state)
      | CustomGroupPositionAdded customGroup \<Rightarrow> addCustomGroupPosition state customGroup
      | CustomGroupPositionChanged payload \<Rightarrow>
          state\<lparr> CustomGroupPositions.byId :=
            (CustomGroupPositions.byId state)(propKey payload ''_id'' \<mapsto>
              spread (CustomGroupPositions.byId state (propKey payload ''_id'')) payload) \<rparr>
      | CustomGroupPositionRemoved ident \<Rightarrow>
          (case CustomGroupPositions.byId state ident of
             Some removed \<Rightarrow>
               state\<lparr>
                 CustomGroupPositions.byId := omit (Some (CustomGroupPositions.byId state)) ident,
                 CustomGroupPositions.byGroup :=
                   (CustomGroupPositions.byGroup state)(propKey removed ''groupId'' \<mapsto>
                     without (CustomGroupPositions.byGroup state (propKey removed ''groupId'')) ident),
                 CustomGroupPositions.byDevice :=
                   (CustomGroupPositions.byDevice state)(propKey removed ''deviceId'' \<mapsto>
                     without (CustomGroupPositions.byDevice state (propKey removed ''deviceId'')) ident),
                 CustomGroupPositions.byDeviceAndGroup :=
                   (CustomGroupPositions.byDeviceAndGroup state)(propKey removed ''deviceId'' \<mapsto>
                     omit (CustomGroupPositions.byDeviceAndGroup state (propKey removed ''deviceId''))
                       (propKey removed ''groupId'')),
                 CustomGroupPositions.allIds :=
                   without (Some (CustomGroupPositions.allIds state)) ident \<rparr>
           | None \<Rightarrow> state)
      | _ \<Rightarrow> state)"

subsection \<open>reduceCustomStageMemberVolumes\<close>

record CustomStageMemberVolumes =
  byId :: "string \<rightharpoonup> entity"
  byDevice :: "string \<rightharpoonup> string list"
  byStageMember :: "string \<rightharpoonup> string list"
  byDeviceAndStageMember :: "string \<rightharpoonup> (string \<rightharpoonup> string)"
  allIds :: "string list"

definition initialCustomStageMemberVolumes :: CustomStageMemberVolumes where
  "initialCustomStageMemberVolumes =
     \<lparr> CustomStageMemberVolumes.byId = Map.empty, CustomStageMemberVolumes.byDevice = Map.empty,
       CustomStageMemberVolumes.byStageMember = Map.empty,
       CustomStageMemberVolumes.byDeviceAndStageMember = Map.empty, CustomStageMemberVolumes.allIds = [] \<rparr>"

definition addCustomStageMemberVolume :: "CustomStageMemberVolumes \<Rightarrow> entity \<Rightarrow> CustomStageMemberVolumes" where
  "addCustomStageMemberVolume state customStageMember =
     state\<lparr>
       CustomStageMemberVolumes.byId :=
         (CustomStageMemberVolumes.byId state)(propKey customStageMember ''_id'' \<mapsto> customStageMember),
       CustomStageMemberVolumes.byStageMember :=
         (CustomStageMemberVolumes.byStageMember state)(propKey customStageMember ''stageMemberId'' \<mapsto>
           (case CustomStageMemberVolumes.byStageMember state (propKey customStageMember ''stageMemberId'') of
              Some ids \<Rightarrow> ids @ [propKey customStageMember ''_id'']
            | None \<Rightarrow> [propKey customStageMember ''_id''])),
       CustomStageMemberVolumes.byDevice :=
         (CustomStageMemberVolumes.byDevice state)(propKey customStageMember ''deviceId'' \<mapsto>
           (case CustomStageMemberVolumes.byDevice state (propKey customStageMember ''deviceId'') of
              Some ids \<Rightarrow> ids @ [propKey customStageMember ''_id'']
            | None \<Rightarrow> [propKey customStageMember ''_id''])),
       CustomStageMemberVolumes.byDeviceAndStageMember :=
         (CustomStageMemberVolumes.byDeviceAndStageMember state)(propKey customStageMember ''deviceId'' \<mapsto>
           (case CustomStageMemberVolumes.byDeviceAndStageMember state (propKey customStageMember ''deviceId'') of
              Some m \<Rightarrow> m
            | None \<Rightarrow> Map.empty)(propKey customStageMember ''stageMemberId'' \<mapsto> propKey customStageMember ''_id'')),
       CustomStageMemberVolumes.allIds :=
         upsert (Some (CustomStageMemberVolumes.allIds state)) (propKey customStageMember ''_id'') \<rparr>"

definition reduceCustomStageMemberVolumes :: "CustomStageMemberVolumes \<Rightarrow> action \<Rightarrow> CustomStageMemberVolumes" where
  "reduceCustomStageMemberVolumes state act =
     (case act of
        StageLeft \<Rightarrow> initialCustomStageMemberVolumes
      | RESET \<Rightarrow> initialCustomStageMemberVolumes
      | StageJoined payload \<Rightarrow>
          (case customStageMemberVolumes payload of
             Some entities \<Rightarrow> foldl addCustomStageMemberVolume state entities
           | None \<Rightarrow> state)
      | CustomStageMemberVolumeAdded customStageMember \<Rightarrow> addCustomStageMemberVolume state customStageMember
      | CustomStageMemberVolumeChanged payload \<Rightarrow>
          state\<lparr> CustomStageMemberVolumes.byId :=
            (CustomStageMemberVolumes.byId state)(propKey payload ''_id'' \<mapsto>
              spread (CustomStageMemberVolumes.byId state (propKey payload ''_id'')) payload) \<rparr>
      | CustomStageMemberVolumeRemoved ident \<Rightarrow>
          (case CustomStageMemberVolumes.byId state ident of
             Some removed \<Rightarrow>
               state\<lparr>
                 CustomStageMemberVolumes.byId := omit (Some (CustomStageMemberVolumes.byId state)) ident,
                 CustomStageMemberVolumes.byStageMember :=
                   (CustomStageMemberVolumes.byStageMember state)(propKey removed ''stageMemberId'' \<mapsto>
                     without (CustomStageMemberVolumes.byStageMember state (propKey removed ''stageMemberId'')) ident),
                 CustomStageMemberVolumes.byDevice :=
                   (CustomStageMemberVolumes.byDevice state)(propKey removed ''deviceId'' \<mapsto>
                     without (CustomStageMemberVolumes.byDevice state (propKey removed ''deviceId'')) ident),
                 CustomStageMemberVolumes.byDeviceAndStageMember :=
                   (CustomStageMemberVolumes.byDeviceAndStageMember state)(propKey removed ''deviceId'' \<mapsto>
                     omit (CustomStageMemberVolumes.byDeviceAndStageMember state (propKey removed ''deviceId''))
                       (propKey removed ''stageMemberId'')),
                 CustomStageMemberVolumes.allIds :=
                   without (Some (CustomStageMemberVolumes.allIds state)) ident \<rparr>
           | None \<Rightarrow> state)
      | _ \<Rightarrow> state)"

subsection \<open>reduceDevices\<close>

record Devices =
  byId :: "string \<rightharpoonup> entity"
  allIds :: "string list"

definition initialDevices :: Devices where
  "initialDevices = \<lparr> Devices.byId = Map.empty, Devices.allIds = [] \<rparr>"

text \<open>
  \<open>newDate\<close> is the JavaScript constructor call \<^verbatim>\<open>new Date(v)\<close>, from the value of a field
  (\<open>None\<close> when the field is missing) to the text of the date.
\<close>

definition reduceDevices :: "(string option \<Rightarrow> string) \<Rightarrow> Devices \<Rightarrow> action \<Rightarrow> Devices" where
  "reduceDevices newDate state act =
     (case act of
        RESET \<Rightarrow> initialDevices
      | LocalDeviceReady device \<Rightarrow>
          state\<lparr>
            Devices.byId := (Devices.byId state)(propKey device ''_id'' \<mapsto>
              device(''createdAt'' \<mapsto> newDate (device ''createdAt''),
                     ''lastLoginAt'' \<mapsto> newDate (device ''lastLoginAt''))),
            Devices.allIds := upsert (Some (Devices.allIds state)) (propKey device ''_id'') \<rparr>
      | DeviceAdded device \<Rightarrow>
          state\<lparr>
            Devices.byId := (Devices.byId state)(propKey device ''_id'' \<mapsto>
              device(''createdAt'' \<mapsto> newDate (device ''createdAt''),
                     ''lastLoginAt'' \<mapsto> newDate (device ''lastLoginAt''))),
            Devices.allIds := upsert (Some (Devices.allIds state)) (propKey device ''_id'') \<rparr>
      | DeviceChanged payload \<Rightarrow>
          state\<lparr> Devices.byId :=
            (Devices.byId state)(propKey payload ''_id'' \<mapsto>
              spread (Devices.byId state (propKey payload ''_id'')) payload) \<rparr>
      | DeviceRemoved ident \<Rightarrow>
          state\<lparr> Devices.byId := omit (Some (Devices.byId state)) ident,
                 Devices.allIds := without (Some (Devices.allIds state)) ident \<rparr>
      | _ \<Rightarrow> state)"

subsection \<open>reduceVideoTracks\<close>

record VideoTracks =
  byId :: "string \<rightharpoonup> entity"
  byStageMember :: "string \<rightharpoonup> string list"
  byStageDevice :: "string \<rightharpoonup> string list"
  byStage :: "string \<rightharpoonup> string list"
  byUser :: "string \<rightharpoonup> string list"
  allIds :: "string list"

definition initialVideoTracks :: VideoTracks where
  "initialVideoTracks =
     \<lparr> VideoTracks.byId = Map.empty, VideoTracks.byStageMember = Map.empty,
       VideoTracks.byStageDevice = Map.empty, VideoTracks.byStage = Map.empty,
       VideoTracks.byUser = Map.empty, VideoTracks.allIds = [] \<rparr>"

definition addVideoTrack :: "VideoTracks \<Rightarrow> entity \<Rightarrow> VideoTracks" where
  "addVideoTrack state videoTrack =
     state\<lparr>
       VideoTracks.byId := (VideoTracks.byId state)(propKey videoTrack ''_id'' \<mapsto> videoTrack),
       VideoTracks.byStageMember :=
         (VideoTracks.byStageMember state)(propKey videoTrack ''stageMemberId'' \<mapsto>
           upsert (VideoTracks.byStageMember state (propKey videoTrack ''stageMemberId''))
             (propKey videoTrack ''_id'')),
       VideoTracks.byStageDevice :=
         (VideoTracks.byStageDevice state)(propKey videoTrack ''stageDeviceId'' \<mapsto>
           upsert (VideoTracks.byStageDevice state (propKey videoTrack ''stageDeviceId''))
             (propKey videoTrack ''_id'')),
       VideoTracks.byUser :=
         (VideoTracks.byUser state)(propKey videoTrack ''userId'' \<mapsto>
           upsert (VideoTracks.byUser state (propKey videoTrack ''userId''))
             (propKey videoTrack ''_id'')),
       VideoTracks.byStage :=
         (VideoTracks.byStage state)(propKey videoTrack ''stageId'' \<mapsto>
           upsert (VideoTracks.byStage state (propKey videoTrack ''stageId''))
             (propKey videoTrack ''_id'')),
       VideoTracks.allIds := upsert (Some (VideoTracks.allIds state)) (propKey videoTrack ''_id'') \<rparr>"

definition reduceVideoTracks :: "VideoTracks \<Rightarrow> action \<Rightarrow> VideoTracks" where
  "reduceVideoTracks state act =
     (case act of
        StageLeft \<Rightarrow> initialVideoTracks
      | RESET \<Rightarrow> initialVideoTracks
      | StageJoined payload \<Rightarrow>
          (case videoTracks payload of
             Some entities \<Rightarrow> foldl addVideoTrack state entities
           | None \<Rightarrow> state)
      | VideoTrackAdded videoTrack \<Rightarrow> addVideoTrack state videoTrack
      | VideoTrackChanged update \<Rightarrow>
          state\<lparr> VideoTracks.byId :=
            (VideoTracks.byId state)(propKey update ''_id'' \<mapsto>
              spread (VideoTracks.byId state (propKey update ''_id'')) update) \<rparr>
      | VideoTrackRemoved ident \<Rightarrow>
          (case VideoTracks.byId state ident of
             None \<Rightarrow> state
           | Some removed \<Rightarrow>
               state\<lparr>
                 VideoTracks.byId := omit (Some (VideoTracks.byId state)) ident,
                 VideoTracks.byStageMember :=
                   (VideoTracks.byStageMember state)(propKey removed ''stageMemberId'' \<mapsto>
                     without (VideoTracks.byStageMember state (propKey removed ''stageMemberId'')) ident),
                 VideoTracks.byStageDevice :=
                   (VideoTracks.byStageDevice state)(propKey removed ''stageDeviceId'' \<mapsto>
                     without (VideoTracks.byStageDevice state (propKey removed ''stageDeviceId'')) ident),
                 VideoTracks.byStage :=
                   (VideoTracks.byStage state)(propKey removed ''stageId'' \<mapsto>
                     without (VideoTracks.byStage state (propKey removed ''stageId'')) ident),
                 VideoTracks.byUser :=
                   (VideoTracks.byUser state)(propKey removed ''userId'' \<mapsto>
                     without (VideoTracks.byUser state (propKey removed ''userId'')) ident),
                 VideoTracks.allIds := without (Some (VideoTracks.allIds state)) ident \<rparr>)
      | _ \<Rightarrow> state)"

subsection \<open>Event sequences\<close>

text \<open>
  \<open>states r s evs\<close> lists the state before the first event and after every event of
  \<open>evs\<close>, for the reducer \<open>r\<close> started in \<open>s\<close>; \<open>admissible ok r s evs\<close> says that every event
  satisfies \<open>ok\<close> in the state it is applied to.
\<close>

fun states :: "('s \<Rightarrow> action \<Rightarrow> 's) \<Rightarrow> 's \<Rightarrow> action list \<Rightarrow> 's list" where
  "states r s [] = [s]"
| "states r s (a # evs) = s # states r (r s a) evs"

fun admissible :: "('s \<Rightarrow> action \<Rightarrow> bool) \<Rightarrow> ('s \<Rightarrow> action \<Rightarrow> 's) \<Rightarrow> 's \<Rightarrow> action list \<Rightarrow> bool" where
  "admissible ok r s [] = True"
| "admissible ok r s (a # evs) = (ok s a \<and> admissible ok r (r s a) evs)"

section \<open>Properties of a store\<close>

text \<open>
  \<open>idsMatch\<close>: the id list holds exactly the keys of the object map, each once.
  \<open>bucketSets\<close>: every bucket of a list-valued index is free of duplicates and holds
  only keys of the object map; \<open>compoundKeys\<close> is the same for the ids a compound index
  maps to.  \<open>absentFrom\<close> and \<open>absentFromCompound\<close>: an id occurs nowhere in an index.
\<close>

definition idsMatch :: "(string \<rightharpoonup> entity) \<Rightarrow> string list \<Rightarrow> bool" where
  "idsMatch objects ids = (set ids = dom objects \<and> distinct ids)"

definition bucketSets :: "(string \<rightharpoonup> entity) \<Rightarrow> (string \<rightharpoonup> string list) \<Rightarrow> bool" where
  "bucketSets objects index =
     (\<forall>k ids. index k = Some ids \<longrightarrow> distinct ids \<and> set ids \<subseteq> dom objects)"

definition compoundKeys :: "(string \<rightharpoonup> entity) \<Rightarrow> (string \<rightharpoonup> (string \<rightharpoonup> string)) \<Rightarrow> bool" where
  "compoundKeys objects index =
     (\<forall>k1 m k2 i. index k1 = Some m \<longrightarrow> m k2 = Some i \<longrightarrow> i \<in> dom objects)"

definition absentFrom :: "string \<Rightarrow> (string \<rightharpoonup> string list) \<Rightarrow> bool" where
  "absentFrom i index = (\<forall>k ids. index k = Some ids \<longrightarrow> i \<notin> set ids)"

definition absentFromCompound :: "string \<Rightarrow> (string \<rightharpoonup> (string \<rightharpoonup> string)) \<Rightarrow> bool" where
  "absentFromCompound i index = (\<forall>k1 m k2. index k1 = Some m \<longrightarrow> m k2 \<noteq> Some i)"

text \<open>
  The invariants behind them: every id in the bucket of a key belongs to a stored object
  whose parent-reference field \<open>f\<close> is that key, and a compound entry for a pair of keys
  points to a stored object with these two parent references.
\<close>

definition bucketsOk :: "(string \<rightharpoonup> entity) \<Rightarrow> string \<Rightarrow> (string \<rightharpoonup> string list) \<Rightarrow> bool" where
  "bucketsOk objects f index =
     (\<forall>k ids. index k = Some ids \<longrightarrow>
        distinct ids \<and> (\<forall>i\<in>set ids. \<exists>e. objects i = Some e \<and> propKey e f = k))"

definition compoundOk ::
  "(string \<rightharpoonup> entity) \<Rightarrow> string \<Rightarrow> string \<Rightarrow> (string \<rightharpoonup> (string \<rightharpoonup> string)) \<Rightarrow> bool" where
  "compoundOk objects f1 f2 index =
     (\<forall>k1 m k2 i. index k1 = Some m \<longrightarrow> m k2 = Some i \<longrightarrow>
        (\<exists>e. objects i = Some e \<and> propKey e f1 = k1 \<and> propKey e f2 = k2))"

text \<open>
  Conditions on an event in the state it is applied to.  \<open>freshIds\<close>: the added entities
  carry pairwise different ids, none of them stored yet.  \<open>keepsParents\<close>: a patch of a
  stored object leaves the listed parent-reference fields of the merged object as they
  were (a patch of an unknown id is not constrained).
\<close>

definition freshIds :: "(string \<rightharpoonup> entity) \<Rightarrow> entity list \<Rightarrow> bool" where
  "freshIds objects entities =
     (distinct (map (\<lambda>e. propKey e ''_id'') entities) \<and>
      (\<forall>e\<in>set entities. objects (propKey e ''_id'') = None))"

definition keepsParents :: "string list \<Rightarrow> (string \<rightharpoonup> entity) \<Rightarrow> entity \<Rightarrow> bool" where
  "keepsParents fs objects payload =
     (case objects (propKey payload ''_id'') of
        None \<Rightarrow> True
      | Some old \<Rightarrow> (\<forall>f\<in>set fs. propKey (spread (Some old) payload) f = propKey old f))"

subsection \<open>Per reducer\<close>

text \<open>
  \<open>patchKnown\<close>: a changed event of the reducer's kind names a stored id.
  \<open>wellBehaved\<close>: added and joined entities are fresh, and a changed event keeps the
  parent references.  \<open>indexed\<close> is the invariant of the secondary indices,
  \<open>bucketsAreSets\<close> and \<open>notRetained\<close> are what it gives for the buckets and for an id.
\<close>

definition patchKnownCustomGroupPositions :: "CustomGroupPositions \<Rightarrow> action \<Rightarrow> bool" where
  "patchKnownCustomGroupPositions s a =
     (case a of
        CustomGroupPositionChanged payload \<Rightarrow>
          CustomGroupPositions.byId s (propKey payload ''_id'') \<noteq> None
      | _ \<Rightarrow> True)"

definition wellBehavedCustomGroupPositions :: "CustomGroupPositions \<Rightarrow> action \<Rightarrow> bool" where
  "wellBehavedCustomGroupPositions s a =
     (case a of
        StageJoined payload \<Rightarrow>
          (case customGroupPositions payload of
             Some entities \<Rightarrow> freshIds (CustomGroupPositions.byId s) entities
           | None \<Rightarrow> True)
      | CustomGroupPositionAdded e \<Rightarrow> CustomGroupPositions.byId s (propKey e ''_id'') = None
      | CustomGroupPositionChanged payload \<Rightarrow>
          keepsParents [''groupId'', ''deviceId''] (CustomGroupPositions.byId s) payload
      | _ \<Rightarrow> True)"

definition indexedCustomGroupPositions :: "CustomGroupPositions \<Rightarrow> bool" where
  "indexedCustomGroupPositions s =
     (bucketsOk (CustomGroupPositions.byId s) ''groupId'' (CustomGroupPositions.byGroup s) \<and>
      bucketsOk (CustomGroupPositions.byId s) ''deviceId'' (CustomGroupPositions.byDevice s) \<and>
      compoundOk (CustomGroupPositions.byId s) ''deviceId'' ''groupId''
        (CustomGroupPositions.byDeviceAndGroup s))"

definition bucketsAreSetsCustomGroupPositions :: "CustomGroupPositions \<Rightarrow> bool" where
  "bucketsAreSetsCustomGroupPositions s =
     (bucketSets (CustomGroupPositions.byId s) (CustomGroupPositions.byGroup s) \<and>
      bucketSets (CustomGroupPositions.byId s) (CustomGroupPositions.byDevice s) \<and>
      compoundKeys (CustomGroupPositions.byId s) (CustomGroupPositions.byDeviceAndGroup s))"

definition notRetainedCustomGroupPositions :: "CustomGroupPositions \<Rightarrow> string \<Rightarrow> bool" where
  "notRetainedCustomGroupPositions s i =
     (absentFrom i (CustomGroupPositions.byGroup s) \<and>
      absentFrom i (CustomGroupPositions.byDevice s) \<and>
      absentFromCompound i (CustomGroupPositions.byDeviceAndGroup s))"

definition patchKnownCustomStageMemberVolumes :: "CustomStageMemberVolumes \<Rightarrow> action \<Rightarrow> bool" where
  "patchKnownCustomStageMemberVolumes s a =
     (case a of
        CustomStageMemberVolumeChanged payload \<Rightarrow>
          CustomStageMemberVolumes.byId s (propKey payload ''_id'') \<noteq> None
      | _ \<Rightarrow> True)"

definition wellBehavedCustomStageMemberVolumes :: "CustomStageMemberVolumes \<Rightarrow> action \<Rightarrow> bool" where
  "wellBehavedCustomStageMemberVolumes s a =
     (case a of
        StageJoined payload \<Rightarrow>
          (case customStageMemberVolumes payload of
             Some entities \<Rightarrow> freshIds (CustomStageMemberVolumes.byId s) entities
           | None \<Rightarrow> True)
      | CustomStageMemberVolumeAdded e \<Rightarrow> CustomStageMemberVolumes.byId s (propKey e ''_id'') = None
      | CustomStageMemberVolumeChanged payload \<Rightarrow>
          keepsParents [''stageMemberId'', ''deviceId''] (CustomStageMemberVolumes.byId s) payload
      | _ \<Rightarrow> True)"

definition indexedCustomStageMemberVolumes :: "CustomStageMemberVolumes \<Rightarrow> bool" where
  "indexedCustomStageMemberVolumes s =
     (bucketsOk (CustomStageMemberVolumes.byId s) ''stageMemberId'' (CustomStageMemberVolumes.byStageMember s) \<and>
      bucketsOk (CustomStageMemberVolumes.byId s) ''deviceId'' (CustomStageMemberVolumes.byDevice s) \<and>
      compoundOk (CustomStageMemberVolumes.byId s) ''deviceId'' ''stageMemberId''
        (CustomStageMemberVolumes.byDeviceAndStageMember s))"

definition bucketsAreSetsCustomStageMemberVolumes :: "CustomStageMemberVolumes \<Rightarrow> bool" where
  "bucketsAreSetsCustomStageMemberVolumes s =
     (bucketSets (CustomStageMemberVolumes.byId s) (CustomStageMemberVolumes.byStageMember s) \<and>
      bucketSets (CustomStageMemberVolumes.byId s) (CustomStageMemberVolumes.byDevice s) \<and>
      compoundKeys (CustomStageMemberVolumes.byId s) (CustomStageMemberVolumes.byDeviceAndStageMember s))"

definition notRetainedCustomStageMemberVolumes :: "CustomStageMemberVolumes \<Rightarrow> string \<Rightarrow> bool" where
  "notRetainedCustomStageMemberVolumes s i =
     (absentFrom i (CustomStageMemberVolumes.byStageMember s) \<and>
      absentFrom i (CustomStageMemberVolumes.byDevice s) \<and>
      absentFromCompound i (CustomStageMemberVolumes.byDeviceAndStageMember s))"

definition patchKnownVideoTracks :: "VideoTracks \<Rightarrow> action \<Rightarrow> bool" where
  "patchKnownVideoTracks s a =
     (case a of
        VideoTrackChanged payload \<Rightarrow> VideoTracks.byId s (propKey payload ''_id'') \<noteq> None
      | _ \<Rightarrow> True)"

definition wellBehavedVideoTracks :: "VideoTracks \<Rightarrow> action \<Rightarrow> bool" where
  "wellBehavedVideoTracks s a =
     (case a of
        StageJoined payload \<Rightarrow>
          (case videoTracks payload of
             Some entities \<Rightarrow> freshIds (VideoTracks.byId s) entities
           | None \<Rightarrow> True)
      | VideoTrackAdded e \<Rightarrow> VideoTracks.byId s (propKey e ''_id'') = None
      | VideoTrackChanged payload \<Rightarrow>
          keepsParents [''stageMemberId'', ''stageDeviceId'', ''userId'', ''stageId'']
            (VideoTracks.byId s) payload
      | _ \<Rightarrow> True)"

definition indexedVideoTracks :: "VideoTracks \<Rightarrow> bool" where
  "indexedVideoTracks s =
     (bucketsOk (VideoTracks.byId s) ''stageMemberId'' (VideoTracks.byStageMember s) \<and>
      bucketsOk (VideoTracks.byId s) ''stageDeviceId'' (VideoTracks.byStageDevice s) \<and>
      bucketsOk (VideoTracks.byId s) ''userId'' (VideoTracks.byUser s) \<and>
      bucketsOk (VideoTracks.byId s) ''stageId'' (VideoTracks.byStage s))"

definition bucketsAreSetsVideoTracks :: "VideoTracks \<Rightarrow> bool" where
  "bucketsAreSetsVideoTracks s =
     (bucketSets (VideoTracks.byId s) (VideoTracks.byStageMember s) \<and>
      bucketSets (VideoTracks.byId s) (VideoTracks.byStageDevice s) \<and>
      bucketSets (VideoTracks.byId s) (VideoTracks.byUser s) \<and>
      bucketSets (VideoTracks.byId s) (VideoTracks.byStage s))"

definition notRetainedVideoTracks :: "VideoTracks \<Rightarrow> string \<Rightarrow> bool" where
  "notRetainedVideoTracks s i =
     (absentFrom i (VideoTracks.byStageMember s) \<and>
      absentFrom i (VideoTracks.byStageDevice s) \<and>
      absentFrom i (VideoTracks.byUser s) \<and>
      absentFrom i (VideoTracks.byStage s))"

definition patchKnownDevices :: "Devices \<Rightarrow> action \<Rightarrow> bool" where
  "patchKnownDevices s a =
     (case a of
        DeviceChanged payload \<Rightarrow> Devices.byId s (propKey payload ''_id'') \<noteq> None
      | _ \<Rightarrow> True)"

section \<open>Example inputs\<close>

definition exampleEntity :: entity where
  "exampleEntity = [''_id'' \<mapsto> ''a'', ''groupId'' \<mapsto> ''g1'', ''deviceId'' \<mapsto> ''d1'']"

definition examplePatch :: entity where
  "examplePatch = [''_id'' \<mapsto> ''a'', ''x'' \<mapsto> ''5'']"

definition exampleEvents :: "action list" where
  "exampleEvents =
     [StageJoined \<lparr>
        customGroupPositions =
          Some [[''_id'' \<mapsto> ''a'', ''groupId'' \<mapsto> ''g1'', ''deviceId'' \<mapsto> ''d1'', ''x'' \<mapsto> ''1'']],
        customStageMemberVolumes =
          Some [[''_id'' \<mapsto> ''v'', ''stageMemberId'' \<mapsto> ''m1'', ''deviceId'' \<mapsto> ''d1'']],
        videoTracks =
          Some [[''_id'' \<mapsto> ''t'', ''stageMemberId'' \<mapsto> ''m1'', ''stageDeviceId'' \<mapsto> ''sd1'',
                 ''userId'' \<mapsto> ''u1'', ''stageId'' \<mapsto> ''s1'']] \<rparr>,
      DeviceAdded [''_id'' \<mapsto> ''d1'', ''createdAt'' \<mapsto> ''0'', ''lastLoginAt'' \<mapsto> ''0''],
      CustomGroupPositionAdded [''_id'' \<mapsto> ''b'', ''groupId'' \<mapsto> ''g1'', ''deviceId'' \<mapsto> ''d2''],
      CustomGroupPositionChanged [''_id'' \<mapsto> ''a'', ''x'' \<mapsto> ''5''],
      CustomStageMemberVolumeChanged [''_id'' \<mapsto> ''v'', ''muted'' \<mapsto> ''true''],
      VideoTrackChanged [''_id'' \<mapsto> ''t'', ''stageMemberId'' \<mapsto> ''m1''],
      DeviceChanged [''_id'' \<mapsto> ''d1'', ''name'' \<mapsto> ''laptop''],
      CustomGroupPositionRemoved ''a'',
      CustomStageMemberVolumeRemoved ''v'',
      VideoTrackRemoved ''t'',
      DeviceRemoved ''d1'']"

definition exampleData :: ConsumerData where
  "exampleData = \<lparr> data_id = ''c1'', data_producerId = ''p1'', data_paused = True \<rparr>"

definition exampleTransportConsume :: "ConsumerData \<Rightarrow> Consumer option" where
  "exampleTransportConsume d =
     Some \<lparr> consumer_id = data_id d, consumer_paused = False, consumer_closed = False \<rparr>"

section \<open>Lemmas on lists, maps and indices\<close>

lemma set_upsert [simp]: "set (upsert (Some ids) v) = insert v (set ids)"
  by (auto simp: upsert_def)

lemma upsert_None [simp]: "upsert None v = [v]"
  by (simp add: upsert_def)

lemma distinct_upsert [simp]: "distinct ids \<Longrightarrow> distinct (upsert (Some ids) v)"
  by (simp add: upsert_def)

lemma set_without [simp]: "set (without (Some ids) v) = set ids - {v}"
  by (auto simp: without_def)

lemma without_None [simp]: "without None v = []"
  by (simp add: without_def)

lemma distinct_without [simp]: "distinct ids \<Longrightarrow> distinct (without (Some ids) v)"
  by (simp add: without_def)

lemma dom_omit [simp]: "dom (omit (Some m) k) = dom m - {k}"
  by (auto simp: omit_def)

lemma omit_apply: "omit (Some m) k = m(k := None)"
  by (simp add: omit_def)

lemma spread_None [simp]: "spread None p = p"
  by (simp add: spread_def)

lemma spread_Some [simp]: "spread (Some old) p = old ++ p"
  by (simp add: spread_def)

subsection \<open>Index invariants under add, remove and patch\<close>

lemma bucketsOk_empty [simp]: "bucketsOk objects f Map.empty"
  by (simp add: bucketsOk_def)

lemma compoundOk_empty [simp]: "compoundOk objects f1 f2 Map.empty"
  by (simp add: compoundOk_def)

lemma bucketsOk_sets: "bucketsOk objects f index \<Longrightarrow> bucketSets objects index"
  unfolding bucketsOk_def bucketSets_def by (meson domI subsetI)

lemma compoundOk_keys: "compoundOk objects f1 f2 index \<Longrightarrow> compoundKeys objects index"
  unfolding compoundOk_def compoundKeys_def by (meson domI)

lemma bucketsOk_unknown: "bucketsOk objects f index \<Longrightarrow> objects i = None \<Longrightarrow> absentFrom i index"
  unfolding bucketsOk_def absentFrom_def by fastforce

lemma compoundOk_unknown:
  "compoundOk objects f1 f2 index \<Longrightarrow> objects i = None \<Longrightarrow> absentFromCompound i index"
  unfolding compoundOk_def absentFromCompound_def by fastforce

lemma bucketsOk_append:
  assumes "bucketsOk objects f index" and "objects i = None"
  shows "bucketsOk (objects(i \<mapsto> e)) f
           (index(propKey e f \<mapsto> (case index (propKey e f) of Some ids \<Rightarrow> ids @ [i] | None \<Rightarrow> [i])))"
  using assms unfolding bucketsOk_def
  by (auto split: option.splits) fastforce+

lemma bucketsOk_upsert:
  assumes "bucketsOk objects f index" and "objects i = None"
  shows "bucketsOk (objects(i \<mapsto> e)) f (index(propKey e f \<mapsto> upsert (index (propKey e f)) i))"
proof -
  have "absentFrom i index"
    using assms by (rule bucketsOk_unknown)
  then have "upsert (index (propKey e f)) i
          = (case index (propKey e f) of Some ids \<Rightarrow> ids @ [i] | None \<Rightarrow> [i])"
    by (auto split: option.splits simp: upsert_def absentFrom_def)
  then show ?thesis
    using bucketsOk_append [OF assms] by simp
qed

lemma bucketsOk_remove:
  assumes "bucketsOk objects f index" and "objects i = Some e"
  shows "bucketsOk (objects(i := None)) f (index(propKey e f \<mapsto> without (index (propKey e f)) i))"
  using assms unfolding bucketsOk_def
  by (auto split: option.splits simp: without_def) fastforce+

lemma absentFrom_remove:
  assumes "bucketsOk objects f index" and "objects i = Some e"
  shows "absentFrom i (index(propKey e f \<mapsto> without (index (propKey e f)) i))"
  using assms unfolding bucketsOk_def absentFrom_def
  by (auto split: option.splits simp: without_def) fastforce+

lemma bucketsOk_patch:
  assumes "bucketsOk objects f index"
    and "case objects k of None \<Rightarrow> True | Some old \<Rightarrow> propKey new f = propKey old f"
  shows "bucketsOk (objects(k \<mapsto> new)) f index"
  using assms unfolding bucketsOk_def
  by (auto split: option.splits) fastforce+

lemma compoundOk_add:
  assumes "compoundOk objects f1 f2 index" and "objects i = None"
  shows "compoundOk (objects(i \<mapsto> e)) f1 f2
           (index(propKey e f1 \<mapsto>
              (case index (propKey e f1) of Some m \<Rightarrow> m | None \<Rightarrow> Map.empty)(propKey e f2 \<mapsto> i)))"
  using assms unfolding compoundOk_def
  by (auto split: option.splits if_splits) fastforce+

lemma compoundOk_remove:
  assumes "compoundOk objects f1 f2 index" and "objects i = Some e"
  shows "compoundOk (objects(i := None)) f1 f2
           (index(propKey e f1 \<mapsto> omit (index (propKey e f1)) (propKey e f2)))"
  using assms unfolding compoundOk_def
  by (auto split: option.splits if_splits simp: omit_def) fastforce+

lemma absentFromCompound_remove:
  assumes "compoundOk objects f1 f2 index" and "objects i = Some e"
  shows "absentFromCompound i (index(propKey e f1 \<mapsto> omit (index (propKey e f1)) (propKey e f2)))"
  using assms unfolding compoundOk_def absentFromCompound_def
  by (auto split: option.splits if_splits simp: omit_def) fastforce+

lemma compoundOk_patch:
  assumes "compoundOk objects f1 f2 index"
    and "case objects k of None \<Rightarrow> True
         | Some old \<Rightarrow> propKey new f1 = propKey old f1 \<and> propKey new f2 = propKey old f2"
  shows "compoundOk (objects(k \<mapsto> new)) f1 f2 index"
  using assms unfolding compoundOk_def
  by (auto split: option.splits) fastforce+

lemma freshIds_Cons:
  assumes "freshIds objects (e # es)"
  shows "freshIds (objects(propKey e ''_id'' \<mapsto> e')) es"
proof -
  have "propKey e ''_id'' \<notin> (\<lambda>e. propKey e ''_id'') ` set es"
    using assms by (simp add: freshIds_def)
  then have "propKey a ''_id'' \<noteq> propKey e ''_id''" if "a \<in> set es" for a
    using that by (metis imageI)
  then show ?thesis
    using assms by (simp add: freshIds_def)
qed

subsection \<open>Invariants along an event sequence\<close>

lemma states_invariant:
  assumes "P s" and "\<And>s a. P s \<Longrightarrow> ok s a \<Longrightarrow> P (r s a)" and "admissible ok r s evs"
  shows "\<forall>t\<in>set (states r s evs). P t"
  using assms(1,3)
proof (induction evs arbitrary: s)
  case Nil
  then show ?case by simp
next
  case (Cons a evs)
  then have "P (r s a)" and "admissible ok r (r s a) evs"
    using assms(2) by auto
  with Cons show ?case by simp
qed

lemma foldl_in_states: "foldl r s evs \<in> set (states r s evs)"
  by (induction evs arbitrary: s) auto

section \<open>The reducers preserve the invariants\<close>

subsection \<open>reduceCustomGroupPositions\<close>

lemma byId_addCustomGroupPosition:
  "CustomGroupPositions.byId (addCustomGroupPosition s e)
     = (CustomGroupPositions.byId s)(propKey e ''_id'' \<mapsto> e)"
  by (simp add: addCustomGroupPosition_def)

lemma idsMatch_addCustomGroupPosition:
  "idsMatch (CustomGroupPositions.byId s) (CustomGroupPositions.allIds s) \<Longrightarrow>
   idsMatch (CustomGroupPositions.byId (addCustomGroupPosition s e))
     (CustomGroupPositions.allIds (addCustomGroupPosition s e))"
  by (simp add: idsMatch_def addCustomGroupPosition_def)

lemma idsMatch_foldl_addCustomGroupPosition:
  "idsMatch (CustomGroupPositions.byId s) (CustomGroupPositions.allIds s) \<Longrightarrow>
   idsMatch (CustomGroupPositions.byId (foldl addCustomGroupPosition s es))
     (CustomGroupPositions.allIds (foldl addCustomGroupPosition s es))"
  by (induction es arbitrary: s) (simp_all add: idsMatch_addCustomGroupPosition)

lemma idsMatch_reduceCustomGroupPositions:
  assumes "idsMatch (CustomGroupPositions.byId s) (CustomGroupPositions.allIds s)"
    and "patchKnownCustomGroupPositions s a"
  shows "idsMatch (CustomGroupPositions.byId (reduceCustomGroupPositions s a))
     (CustomGroupPositions.allIds (reduceCustomGroupPositions s a))"
proof (cases a)
  case (StageJoined payload)
  then show ?thesis
    using assms(1)
    by (simp add: reduceCustomGroupPositions_def idsMatch_foldl_addCustomGroupPosition
        split: option.splits)
next
  case (CustomGroupPositionAdded e)
  then show ?thesis
    using assms(1) by (simp add: reduceCustomGroupPositions_def idsMatch_addCustomGroupPosition)
next
  case (CustomGroupPositionChanged payload)
  then show ?thesis
    using assms
    by (auto simp: reduceCustomGroupPositions_def patchKnownCustomGroupPositions_def idsMatch_def)
next
  case (CustomGroupPositionRemoved ident)
  then show ?thesis
    using assms(1)
    by (auto simp: reduceCustomGroupPositions_def idsMatch_def split: option.splits)
qed (use assms(1) in \<open>simp_all add: reduceCustomGroupPositions_def initialCustomGroupPositions_def idsMatch_def\<close>)

lemma indexed_addCustomGroupPosition:
  assumes "indexedCustomGroupPositions s" and "CustomGroupPositions.byId s (propKey e ''_id'') = None"
  shows "indexedCustomGroupPositions (addCustomGroupPosition s e)"
  using assms
  by (simp add: indexedCustomGroupPositions_def addCustomGroupPosition_def
      bucketsOk_append compoundOk_add)

lemma indexed_foldl_addCustomGroupPosition:
  assumes "indexedCustomGroupPositions s" and "freshIds (CustomGroupPositions.byId s) es"
  shows "indexedCustomGroupPositions (foldl addCustomGroupPosition s es)"
  using assms
proof (induction es arbitrary: s)
  case Nil
  then show ?case by simp
next
  case (Cons e es)
  from Cons.prems have fresh: "CustomGroupPositions.byId s (propKey e ''_id'') = None"
    by (simp add: freshIds_def)
  have "freshIds (CustomGroupPositions.byId (addCustomGroupPosition s e)) es"
    using Cons.prems(2) by (simp add: byId_addCustomGroupPosition freshIds_Cons)
  with Cons.IH [OF indexed_addCustomGroupPosition [OF Cons.prems(1) fresh]]
  show ?case by simp
qed

lemma indexed_reduceCustomGroupPositions:
  assumes "indexedCustomGroupPositions s" and "wellBehavedCustomGroupPositions s a"
  shows "indexedCustomGroupPositions (reduceCustomGroupPositions s a)"
proof (cases a)
  case (StageJoined payload)
  then show ?thesis
    using assms
    by (simp add: reduceCustomGroupPositions_def wellBehavedCustomGroupPositions_def
        indexed_foldl_addCustomGroupPosition split: option.splits)
next
  case (CustomGroupPositionAdded e)
  then show ?thesis
    using assms
    by (simp add: reduceCustomGroupPositions_def wellBehavedCustomGroupPositions_def
        indexed_addCustomGroupPosition)
next
  case (CustomGroupPositionChanged payload)
  then show ?thesis
    using assms
    by (auto simp: reduceCustomGroupPositions_def wellBehavedCustomGroupPositions_def
        indexedCustomGroupPositions_def keepsParents_def
        intro!: bucketsOk_patch compoundOk_patch split: option.splits)
next
  case (CustomGroupPositionRemoved ident)
  then show ?thesis
    using assms(1)
    by (auto simp: reduceCustomGroupPositions_def indexedCustomGroupPositions_def omit_apply
        bucketsOk_remove compoundOk_remove split: option.splits)
qed (use assms(1) in \<open>simp_all add: reduceCustomGroupPositions_def initialCustomGroupPositions_def
       indexedCustomGroupPositions_def\<close>)

lemma indexed_sets_CustomGroupPositions:
  "indexedCustomGroupPositions s \<Longrightarrow> bucketsAreSetsCustomGroupPositions s"
  by (auto simp: indexedCustomGroupPositions_def bucketsAreSetsCustomGroupPositions_def
      intro: bucketsOk_sets compoundOk_keys)

lemma removed_notRetained_CustomGroupPositions:
  assumes "indexedCustomGroupPositions s"
  shows "notRetainedCustomGroupPositions (reduceCustomGroupPositions s (CustomGroupPositionRemoved i)) i"
  using assms
  by (auto simp: reduceCustomGroupPositions_def indexedCustomGroupPositions_def
      notRetainedCustomGroupPositions_def absentFrom_remove absentFromCompound_remove
      intro: bucketsOk_unknown compoundOk_unknown split: option.splits)

lemma changed_CustomGroupPositions:
  "reduceCustomGroupPositions s (CustomGroupPositionChanged p)
     = s\<lparr> CustomGroupPositions.byId := (CustomGroupPositions.byId s)(propKey p ''_id'' \<mapsto>
           spread (CustomGroupPositions.byId s (propKey p ''_id'')) p) \<rparr>"
  by (simp add: reduceCustomGroupPositions_def)

lemma stored_CustomGroupPositions:
  "CustomGroupPositions.byId (reduceCustomGroupPositions s (CustomGroupPositionChanged p))
     (propKey p ''_id'') = Some (spread (CustomGroupPositions.byId s (propKey p ''_id'')) p)"
  by (simp add: changed_CustomGroupPositions)

lemma changed_unknown_differs_CustomGroupPositions:
  assumes "CustomGroupPositions.byId s (propKey p ''_id'') = None"
  shows "reduceCustomGroupPositions s (CustomGroupPositionChanged p) \<noteq> s"
proof
  assume "reduceCustomGroupPositions s (CustomGroupPositionChanged p) = s"
  then have "CustomGroupPositions.byId (reduceCustomGroupPositions s (CustomGroupPositionChanged p))
      (propKey p ''_id'') = CustomGroupPositions.byId s (propKey p ''_id'')"
    by simp
  with assms show False
    by (simp add: changed_CustomGroupPositions)
qed

subsection \<open>reduceCustomStageMemberVolumes\<close>

lemma byId_addCustomStageMemberVolume:
  "CustomStageMemberVolumes.byId (addCustomStageMemberVolume s e)
     = (CustomStageMemberVolumes.byId s)(propKey e ''_id'' \<mapsto> e)"
  by (simp add: addCustomStageMemberVolume_def)

lemma idsMatch_addCustomStageMemberVolume:
  "idsMatch (CustomStageMemberVolumes.byId s) (CustomStageMemberVolumes.allIds s) \<Longrightarrow>
   idsMatch (CustomStageMemberVolumes.byId (addCustomStageMemberVolume s e))
     (CustomStageMemberVolumes.allIds (addCustomStageMemberVolume s e))"
  by (simp add: idsMatch_def addCustomStageMemberVolume_def)

lemma idsMatch_foldl_addCustomStageMemberVolume:
  "idsMatch (CustomStageMemberVolumes.byId s) (CustomStageMemberVolumes.allIds s) \<Longrightarrow>
   idsMatch (CustomStageMemberVolumes.byId (foldl addCustomStageMemberVolume s es))
     (CustomStageMemberVolumes.allIds (foldl addCustomStageMemberVolume s es))"
  by (induction es arbitrary: s) (simp_all add: idsMatch_addCustomStageMemberVolume)

lemma idsMatch_reduceCustomStageMemberVolumes:
  assumes "idsMatch (CustomStageMemberVolumes.byId s) (CustomStageMemberVolumes.allIds s)"
    and "patchKnownCustomStageMemberVolumes s a"
  shows "idsMatch (CustomStageMemberVolumes.byId (reduceCustomStageMemberVolumes s a))
     (CustomStageMemberVolumes.allIds (reduceCustomStageMemberVolumes s a))"
proof (cases a)
  case (StageJoined payload)
  then show ?thesis
    using assms(1)
    by (simp add: reduceCustomStageMemberVolumes_def idsMatch_foldl_addCustomStageMemberVolume
        split: option.splits)
next
  case (CustomStageMemberVolumeAdded e)
  then show ?thesis
    using assms(1) by (simp add: reduceCustomStageMemberVolumes_def idsMatch_addCustomStageMemberVolume)
next
  case (CustomStageMemberVolumeChanged payload)
  then show ?thesis
    using assms
    by (auto simp: reduceCustomStageMemberVolumes_def patchKnownCustomStageMemberVolumes_def idsMatch_def)
next
  case (CustomStageMemberVolumeRemoved ident)
  then show ?thesis
    using assms(1)
    by (auto simp: reduceCustomStageMemberVolumes_def idsMatch_def split: option.splits)
qed (use assms(1) in \<open>simp_all add: reduceCustomStageMemberVolumes_def initialCustomStageMemberVolumes_def idsMatch_def\<close>)

lemma indexed_addCustomStageMemberVolume:
  assumes "indexedCustomStageMemberVolumes s" and "CustomStageMemberVolumes.byId s (propKey e ''_id'') = None"
  shows "indexedCustomStageMemberVolumes (addCustomStageMemberVolume s e)"
  using assms
  by (simp add: indexedCustomStageMemberVolumes_def addCustomStageMemberVolume_def
      bucketsOk_append compoundOk_add)

lemma indexed_foldl_addCustomStageMemberVolume:
  assumes "indexedCustomStageMemberVolumes s" and "freshIds (CustomStageMemberVolumes.byId s) es"
  shows "indexedCustomStageMemberVolumes (foldl addCustomStageMemberVolume s es)"
  using assms
proof (induction es arbitrary: s)
  case Nil
  then show ?case by simp
next
  case (Cons e es)
  from Cons.prems have fresh: "CustomStageMemberVolumes.byId s (propKey e ''_id'') = None"
    by (simp add: freshIds_def)
  have "freshIds (CustomStageMemberVolumes.byId (addCustomStageMemberVolume s e)) es"
    using Cons.prems(2) by (simp add: byId_addCustomStageMemberVolume freshIds_Cons)
  with Cons.IH [OF indexed_addCustomStageMemberVolume [OF Cons.prems(1) fresh]]
  show ?case by simp
qed

lemma indexed_reduceCustomStageMemberVolumes:
  assumes "indexedCustomStageMemberVolumes s" and "wellBehavedCustomStageMemberVolumes s a"
  shows "indexedCustomStageMemberVolumes (reduceCustomStageMemberVolumes s a)"
proof (cases a)
  case (StageJoined payload)
  then show ?thesis
    using assms
    by (simp add: reduceCustomStageMemberVolumes_def wellBehavedCustomStageMemberVolumes_def
        indexed_foldl_addCustomStageMemberVolume split: option.splits)
next
  case (CustomStageMemberVolumeAdded e)
  then show ?thesis
    using assms
    by (simp add: reduceCustomStageMemberVolumes_def wellBehavedCustomStageMemberVolumes_def
        indexed_addCustomStageMemberVolume)
next
  case (CustomStageMemberVolumeChanged payload)
  then show ?thesis
    using assms
    by (auto simp: reduceCustomStageMemberVolumes_def wellBehavedCustomStageMemberVolumes_def
        indexedCustomStageMemberVolumes_def keepsParents_def
        intro!: bucketsOk_patch compoundOk_patch split: option.splits)
next
  case (CustomStageMemberVolumeRemoved ident)
  then show ?thesis
    using assms(1)
    by (auto simp: reduceCustomStageMemberVolumes_def indexedCustomStageMemberVolumes_def omit_apply
        bucketsOk_remove compoundOk_remove split: option.splits)
qed (use assms(1) in \<open>simp_all add: reduceCustomStageMemberVolumes_def initialCustomStageMemberVolumes_def
       indexedCustomStageMemberVolumes_def\<close>)

lemma indexed_sets_CustomStageMemberVolumes:
  "indexedCustomStageMemberVolumes s \<Longrightarrow> bucketsAreSetsCustomStageMemberVolumes s"
  by (auto simp: indexedCustomStageMemberVolumes_def bucketsAreSetsCustomStageMemberVolumes_def
      intro: bucketsOk_sets compoundOk_keys)

lemma removed_notRetained_CustomStageMemberVolumes:
  assumes "indexedCustomStageMemberVolumes s"
  shows "notRetainedCustomStageMemberVolumes (reduceCustomStageMemberVolumes s (CustomStageMemberVolumeRemoved i)) i"
  using assms
  by (auto simp: reduceCustomStageMemberVolumes_def indexedCustomStageMemberVolumes_def
      notRetainedCustomStageMemberVolumes_def absentFrom_remove absentFromCompound_remove
      intro: bucketsOk_unknown compoundOk_unknown split: option.splits)

lemma changed_CustomStageMemberVolumes:
  "reduceCustomStageMemberVolumes s (CustomStageMemberVolumeChanged p)
     = s\<lparr> CustomStageMemberVolumes.byId := (CustomStageMemberVolumes.byId s)(propKey p ''_id'' \<mapsto>
           spread (CustomStageMemberVolumes.byId s (propKey p ''_id'')) p) \<rparr>"
  by (simp add: reduceCustomStageMemberVolumes_def)

lemma stored_CustomStageMemberVolumes:
  "CustomStageMemberVolumes.byId
     (reduceCustomStageMemberVolumes s (CustomStageMemberVolumeChanged p))
     (propKey p ''_id'') = Some (spread (CustomStageMemberVolumes.byId s (propKey p ''_id'')) p)"
  by (simp add: changed_CustomStageMemberVolumes)

lemma changed_unknown_differs_CustomStageMemberVolumes:
  assumes "CustomStageMemberVolumes.byId s (propKey p ''_id'') = None"
  shows "reduceCustomStageMemberVolumes s (CustomStageMemberVolumeChanged p) \<noteq> s"
proof
  assume "reduceCustomStageMemberVolumes s (CustomStageMemberVolumeChanged p) = s"
  then have "CustomStageMemberVolumes.byId
      (reduceCustomStageMemberVolumes s (CustomStageMemberVolumeChanged p))
      (propKey p ''_id'') = CustomStageMemberVolumes.byId s (propKey p ''_id'')"
    by simp
  with assms show False
    by (simp add: changed_CustomStageMemberVolumes)
qed

subsection \<open>reduceVideoTracks\<close>

lemma byId_addVideoTrack:
  "VideoTracks.byId (addVideoTrack s e) = (VideoTracks.byId s)(propKey e ''_id'' \<mapsto> e)"
  by (simp add: addVideoTrack_def)

lemma idsMatch_addVideoTrack:
  "idsMatch (VideoTracks.byId s) (VideoTracks.allIds s) \<Longrightarrow>
   idsMatch (VideoTracks.byId (addVideoTrack s e)) (VideoTracks.allIds (addVideoTrack s e))"
  by (simp add: idsMatch_def addVideoTrack_def)

lemma idsMatch_foldl_addVideoTrack:
  "idsMatch (VideoTracks.byId s) (VideoTracks.allIds s) \<Longrightarrow>
   idsMatch (VideoTracks.byId (foldl addVideoTrack s es))
     (VideoTracks.allIds (foldl addVideoTrack s es))"
  by (induction es arbitrary: s) (simp_all add: idsMatch_addVideoTrack)

lemma idsMatch_reduceVideoTracks:
  assumes "idsMatch (VideoTracks.byId s) (VideoTracks.allIds s)"
    and "patchKnownVideoTracks s a"
  shows "idsMatch (VideoTracks.byId (reduceVideoTracks s a))
     (VideoTracks.allIds (reduceVideoTracks s a))"
proof (cases a)
  case (StageJoined payload)
  then show ?thesis
    using assms(1)
    by (simp add: reduceVideoTracks_def idsMatch_foldl_addVideoTrack split: option.splits)
next
  case (VideoTrackAdded e)
  then show ?thesis
    using assms(1) by (simp add: reduceVideoTracks_def idsMatch_addVideoTrack)
next
  case (VideoTrackChanged payload)
  then show ?thesis
    using assms
    by (auto simp: reduceVideoTracks_def patchKnownVideoTracks_def idsMatch_def)
next
  case (VideoTrackRemoved ident)
  then show ?thesis
    using assms(1)
    by (auto simp: reduceVideoTracks_def idsMatch_def split: option.splits)
qed (use assms(1) in \<open>simp_all add: reduceVideoTracks_def initialVideoTracks_def idsMatch_def\<close>)

lemma indexed_addVideoTrack:
  assumes "indexedVideoTracks s" and "VideoTracks.byId s (propKey e ''_id'') = None"
  shows "indexedVideoTracks (addVideoTrack s e)"
  using assms
  by (simp add: indexedVideoTracks_def addVideoTrack_def bucketsOk_upsert)

lemma indexed_foldl_addVideoTrack:
  assumes "indexedVideoTracks s" and "freshIds (VideoTracks.byId s) es"
  shows "indexedVideoTracks (foldl addVideoTrack s es)"
  using assms
proof (induction es arbitrary: s)
  case Nil
  then show ?case by simp
next
  case (Cons e es)
  from Cons.prems have fresh: "VideoTracks.byId s (propKey e ''_id'') = None"
    by (simp add: freshIds_def)
  have "freshIds (VideoTracks.byId (addVideoTrack s e)) es"
    using Cons.prems(2) by (simp add: byId_addVideoTrack freshIds_Cons)
  with Cons.IH [OF indexed_addVideoTrack [OF Cons.prems(1) fresh]]
  show ?case by simp
qed

lemma indexed_reduceVideoTracks:
  assumes "indexedVideoTracks s" and "wellBehavedVideoTracks s a"
  shows "indexedVideoTracks (reduceVideoTracks s a)"
proof (cases a)
  case (StageJoined payload)
  then show ?thesis
    using assms
    by (simp add: reduceVideoTracks_def wellBehavedVideoTracks_def
        indexed_foldl_addVideoTrack split: option.splits)
next
  case (VideoTrackAdded e)
  then show ?thesis
    using assms
    by (simp add: reduceVideoTracks_def wellBehavedVideoTracks_def indexed_addVideoTrack)
next
  case (VideoTrackChanged payload)
  then show ?thesis
    using assms
    by (auto simp: reduceVideoTracks_def wellBehavedVideoTracks_def
        indexedVideoTracks_def keepsParents_def
        intro!: bucketsOk_patch split: option.splits)
next
  case (VideoTrackRemoved ident)
  then show ?thesis
    using assms(1)
    by (auto simp: reduceVideoTracks_def indexedVideoTracks_def omit_apply
        bucketsOk_remove split: option.splits)
qed (use assms(1) in \<open>simp_all add: reduceVideoTracks_def initialVideoTracks_def
       indexedVideoTracks_def\<close>)

lemma indexed_sets_VideoTracks:
  "indexedVideoTracks s \<Longrightarrow> bucketsAreSetsVideoTracks s"
  by (auto simp: indexedVideoTracks_def bucketsAreSetsVideoTracks_def intro: bucketsOk_sets)

lemma removed_notRetained_VideoTracks:
  assumes "indexedVideoTracks s"
  shows "notRetainedVideoTracks (reduceVideoTracks s (VideoTrackRemoved i)) i"
  using assms
  by (auto simp: reduceVideoTracks_def indexedVideoTracks_def
      notRetainedVideoTracks_def absentFrom_remove
      intro: bucketsOk_unknown split: option.splits)

lemma changed_VideoTracks:
  "reduceVideoTracks s (VideoTrackChanged p)
     = s\<lparr> VideoTracks.byId := (VideoTracks.byId s)(propKey p ''_id'' \<mapsto>
           spread (VideoTracks.byId s (propKey p ''_id'')) p) \<rparr>"
  by (simp add: reduceVideoTracks_def)

lemma stored_VideoTracks:
  "VideoTracks.byId (reduceVideoTracks s (VideoTrackChanged p)) (propKey p ''_id'')
     = Some (spread (VideoTracks.byId s (propKey p ''_id'')) p)"
  by (simp add: changed_VideoTracks)

lemma changed_unknown_differs_VideoTracks:
  assumes "VideoTracks.byId s (propKey p ''_id'') = None"
  shows "reduceVideoTracks s (VideoTrackChanged p) \<noteq> s"
proof
  assume "reduceVideoTracks s (VideoTrackChanged p) = s"
  then have "VideoTracks.byId (reduceVideoTracks s (VideoTrackChanged p)) (propKey p ''_id'')
      = VideoTracks.byId s (propKey p ''_id'')"
    by simp
  with assms show False
    by (simp add: changed_VideoTracks)
qed

subsection \<open>reduceDevices\<close>

lemma idsMatch_reduceDevices:
  assumes "idsMatch (Devices.byId s) (Devices.allIds s)"
    and "patchKnownDevices s a"
  shows "idsMatch (Devices.byId (reduceDevices newDate s a))
     (Devices.allIds (reduceDevices newDate s a))"
proof (cases a)
  case (DeviceChanged payload)
  then show ?thesis
    using assms
    by (auto simp: reduceDevices_def patchKnownDevices_def idsMatch_def)
qed (use assms(1) in \<open>auto simp: reduceDevices_def initialDevices_def idsMatch_def\<close>)

lemma changed_Devices:
  "reduceDevices newDate s (DeviceChanged p)
     = s\<lparr> Devices.byId := (Devices.byId s)(propKey p ''_id'' \<mapsto>
           spread (Devices.byId s (propKey p ''_id'')) p) \<rparr>"
  by (simp add: reduceDevices_def)

lemma stored_Devices:
  "Devices.byId (reduceDevices newDate s (DeviceChanged p)) (propKey p ''_id'')
     = Some (spread (Devices.byId s (propKey p ''_id'')) p)"
  by (simp add: changed_Devices)

lemma changed_unknown_differs_Devices:
  assumes "Devices.byId s (propKey p ''_id'') = None"
  shows "reduceDevices newDate s (DeviceChanged p) \<noteq> s"
proof
  assume "reduceDevices newDate s (DeviceChanged p) = s"
  then have "Devices.byId (reduceDevices newDate s (DeviceChanged p)) (propKey p ''_id'')
      = Devices.byId s (propKey p ''_id'')"
    by simp
  with assms show False
    by (simp add: changed_Devices)
qed

subsection \<open>Initial states and the example events\<close>

lemma idsMatch_initial:
  "idsMatch (CustomGroupPositions.byId initialCustomGroupPositions)
     (CustomGroupPositions.allIds initialCustomGroupPositions)"
  "idsMatch (CustomStageMemberVolumes.byId initialCustomStageMemberVolumes)
     (CustomStageMemberVolumes.allIds initialCustomStageMemberVolumes)"
  "idsMatch (Devices.byId initialDevices) (Devices.allIds initialDevices)"
  "idsMatch (VideoTracks.byId initialVideoTracks) (VideoTracks.allIds initialVideoTracks)"
  by (simp_all add: idsMatch_def initialCustomGroupPositions_def
      initialCustomStageMemberVolumes_def initialDevices_def initialVideoTracks_def)

lemma indexed_initial:
  "indexedCustomGroupPositions initialCustomGroupPositions"
  "indexedCustomStageMemberVolumes initialCustomStageMemberVolumes"
  "indexedVideoTracks initialVideoTracks"
  by (simp_all add: indexedCustomGroupPositions_def indexedCustomStageMemberVolumes_def
      indexedVideoTracks_def initialCustomGroupPositions_def
      initialCustomStageMemberVolumes_def initialVideoTracks_def)

lemma exampleEvents_patchKnown:
  "admissible patchKnownCustomGroupPositions reduceCustomGroupPositions
      initialCustomGroupPositions exampleEvents"
  "admissible patchKnownCustomStageMemberVolumes reduceCustomStageMemberVolumes
      initialCustomStageMemberVolumes exampleEvents"
  "admissible patchKnownDevices (reduceDevices newDate) initialDevices exampleEvents"
  "admissible patchKnownVideoTracks reduceVideoTracks initialVideoTracks exampleEvents"
proof -
  show "admissible patchKnownCustomGroupPositions reduceCustomGroupPositions
      initialCustomGroupPositions exampleEvents"
    by (simp add: exampleEvents_def patchKnownCustomGroupPositions_def
        reduceCustomGroupPositions_def addCustomGroupPosition_def
        initialCustomGroupPositions_def propKey_def)
  show "admissible patchKnownCustomStageMemberVolumes reduceCustomStageMemberVolumes
      initialCustomStageMemberVolumes exampleEvents"
    by (simp add: exampleEvents_def patchKnownCustomStageMemberVolumes_def
        reduceCustomStageMemberVolumes_def addCustomStageMemberVolume_def
        initialCustomStageMemberVolumes_def propKey_def)
  show "admissible patchKnownDevices (reduceDevices newDate) initialDevices exampleEvents"
    by (simp add: exampleEvents_def patchKnownDevices_def reduceDevices_def
        initialDevices_def propKey_def)
  show "admissible patchKnownVideoTracks reduceVideoTracks initialVideoTracks exampleEvents"
    by (simp add: exampleEvents_def patchKnownVideoTracks_def reduceVideoTracks_def
        addVideoTrack_def initialVideoTracks_def propKey_def)
qed

lemma exampleEvents_wellBehaved:
  "admissible wellBehavedCustomGroupPositions reduceCustomGroupPositions
      initialCustomGroupPositions exampleEvents"
  "admissible wellBehavedCustomStageMemberVolumes reduceCustomStageMemberVolumes
      initialCustomStageMemberVolumes exampleEvents"
  "admissible wellBehavedVideoTracks reduceVideoTracks initialVideoTracks exampleEvents"
proof -
  show "admissible wellBehavedCustomGroupPositions reduceCustomGroupPositions
      initialCustomGroupPositions exampleEvents"
    by (simp add: exampleEvents_def wellBehavedCustomGroupPositions_def
        reduceCustomGroupPositions_def addCustomGroupPosition_def
        initialCustomGroupPositions_def propKey_def freshIds_def keepsParents_def)
  show "admissible wellBehavedCustomStageMemberVolumes reduceCustomStageMemberVolumes
      initialCustomStageMemberVolumes exampleEvents"
    by (simp add: exampleEvents_def wellBehavedCustomStageMemberVolumes_def
        reduceCustomStageMemberVolumes_def addCustomStageMemberVolume_def
        initialCustomStageMemberVolumes_def propKey_def freshIds_def keepsParents_def)
  show "admissible wellBehavedVideoTracks reduceVideoTracks initialVideoTracks exampleEvents"
    by (simp add: exampleEvents_def wellBehavedVideoTracks_def reduceVideoTracks_def
        addVideoTrack_def initialVideoTracks_def propKey_def freshIds_def keepsParents_def)
qed

subsection \<open>connect\<close>

lemma connect_created_open:
  assumes "connect newDevice capsAck device_load device_creates sendAck receiveAck receiveFirst
             = Returns (reqs, transports, outcome)"
  shows "\<forall>t\<in>set transports. \<not> transport_closed t"
  using assms
  by (auto simp: connect_def getRTPCapabilities_def createWebRTCTransport_def
      split: option.splits prod.splits promise.splits if_splits)

lemma connect_requests:
  assumes "connect newDevice capsAck device_load device_creates sendAck receiveAck receiveFirst
             = Returns (reqs, transports, outcome)"
  shows "set reqs \<subseteq> {GetRTPCapabilities, CreateTransport}"
  using assms
  by (auto simp: connect_def getRTPCapabilities_def createWebRTCTransport_def
      split: option.splits prod.splits promise.splits if_splits)

subsection \<open>refreshMediaDevices\<close>

lemma enumerateDevices_addresses:
  assumes "fst (enumerateDevices n nav) = Resolved devices"
  shows "n \<le> addr (inputAudioDevices devices) \<and> n \<le> addr (inputVideoDevices devices)
         \<and> n \<le> addr (outputAudioDevices devices)"
  using assms
  by (cases nav) (auto simp: enumerateDevices_def split: prod.splits)

lemma nextFree_above:
  "addr (inputAudioDevices cur) < nextFree free cur"
  "addr (inputVideoDevices cur) < nextFree free cur"
  "addr (outputAudioDevices cur) < nextFree free cur"
  by (simp_all add: nextFree_def)

lemma refreshMediaDevices_always_emits:
  assumes "fst (enumerateDevices (nextFree free cur) nav) = Resolved devices"
  shows "refreshMediaDevices free nav cur True emitted =
     ([\<lparr> change_id = mediasoupDevice_id cur,
         change_inputAudioDevices = Some (inputAudioDevices devices),
         change_inputVideoDevices = Some (inputVideoDevices devices),
         change_outputAudioDevices = Some (outputAudioDevices devices) \<rparr>],
      Resolved emitted)"
proof -
  have "addr (inputAudioDevices cur) \<noteq> addr (inputAudioDevices devices)"
    "addr (inputVideoDevices cur) \<noteq> addr (inputVideoDevices devices)"
    "addr (outputAudioDevices cur) \<noteq> addr (outputAudioDevices devices)"
    using enumerateDevices_addresses [OF assms] nextFree_above [of cur free] by linarith+
  then show ?thesis
    using assms by (simp add: refreshMediaDevices_def)
qed

section \<open>The claims\<close>

text \<open>
  C1 (evaluation at the failing input).  With group x = 10, stage-member x = 5,
  stage-device x = 2 and no overrides the resolved x is 17; with a device-specific
  group-position override whose x is 0 the resolved x is still 17, not 7: the zero of the
  override is falsy, so the group's own x is added.
\<close>

theorem useStageDevicePosition_zero_override_ignored:
  "x (useStageDevicePosition (poseX 0) (Some (poseX 10)) None (Some (poseX 5)) None
        (Some (poseX 2)) None) = 17
   \<and> x (useStageDevicePosition (poseX 0) (Some (poseX 10)) (Some (poseX 0)) (Some (poseX 5)) None
        (Some (poseX 2)) None) = 17"
  by (simp add: useStageDevicePosition_def poseX_def jsOrNum_def)

text \<open>
  C2 (amended).  For every sequence of events in which each changed event names an id
  that is stored when the event arrives, and for each of the four reducers started in
  its initial state: before the first and after every event, \<open>allIds\<close> holds exactly the
  keys of \<open>byId\<close>, each once.  (A changed event for an unknown id adds a key to \<open>byId\<close>
  and leaves \<open>allIds\<close> as it is, which is why such events are excluded.)
\<close>

theorem allIds_match_byId_when_patches_known:
  "(admissible patchKnownCustomGroupPositions reduceCustomGroupPositions
      initialCustomGroupPositions evs \<longrightarrow>
    (\<forall>s\<in>set (states reduceCustomGroupPositions initialCustomGroupPositions evs).
       idsMatch (CustomGroupPositions.byId s) (CustomGroupPositions.allIds s)))
   \<and> (admissible patchKnownCustomStageMemberVolumes reduceCustomStageMemberVolumes
      initialCustomStageMemberVolumes evs \<longrightarrow>
    (\<forall>s\<in>set (states reduceCustomStageMemberVolumes initialCustomStageMemberVolumes evs).
       idsMatch (CustomStageMemberVolumes.byId s) (CustomStageMemberVolumes.allIds s)))
   \<and> (admissible patchKnownDevices (reduceDevices newDate) initialDevices evs \<longrightarrow>
    (\<forall>s\<in>set (states (reduceDevices newDate) initialDevices evs).
       idsMatch (Devices.byId s) (Devices.allIds s)))
   \<and> (admissible patchKnownVideoTracks reduceVideoTracks initialVideoTracks evs \<longrightarrow>
    (\<forall>s\<in>set (states reduceVideoTracks initialVideoTracks evs).
       idsMatch (VideoTracks.byId s) (VideoTracks.allIds s)))"
proof (intro conjI impI)
  assume "admissible patchKnownCustomGroupPositions reduceCustomGroupPositions initialCustomGroupPositions evs"
  then show "\<forall>s\<in>set (states reduceCustomGroupPositions initialCustomGroupPositions evs).
       idsMatch (CustomGroupPositions.byId s) (CustomGroupPositions.allIds s)"
    using states_invariant
      [where P = "\<lambda>s. idsMatch (CustomGroupPositions.byId s) (CustomGroupPositions.allIds s)"
         and ok = patchKnownCustomGroupPositions and r = "reduceCustomGroupPositions" and s = initialCustomGroupPositions and evs = evs]
      idsMatch_initial(1) idsMatch_reduceCustomGroupPositions
    by simp
next
  assume "admissible patchKnownCustomStageMemberVolumes reduceCustomStageMemberVolumes initialCustomStageMemberVolumes evs"
  then show "\<forall>s\<in>set (states reduceCustomStageMemberVolumes initialCustomStageMemberVolumes evs).
       idsMatch (CustomStageMemberVolumes.byId s) (CustomStageMemberVolumes.allIds s)"
    using states_invariant
      [where P = "\<lambda>s. idsMatch (CustomStageMemberVolumes.byId s) (CustomStageMemberVolumes.allIds s)"
         and ok = patchKnownCustomStageMemberVolumes and r = "reduceCustomStageMemberVolumes" and s = initialCustomStageMemberVolumes and evs = evs]
      idsMatch_initial(2) idsMatch_reduceCustomStageMemberVolumes
    by simp
next
  assume "admissible patchKnownDevices (reduceDevices newDate) initialDevices evs"
  then show "\<forall>s\<in>set (states (reduceDevices newDate) initialDevices evs).
       idsMatch (Devices.byId s) (Devices.allIds s)"
    using states_invariant
      [where P = "\<lambda>s. idsMatch (Devices.byId s) (Devices.allIds s)"
         and ok = patchKnownDevices and r = "reduceDevices newDate" and s = initialDevices and evs = evs]
      idsMatch_initial(3) idsMatch_reduceDevices
    by simp
next
  assume "admissible patchKnownVideoTracks reduceVideoTracks initialVideoTracks evs"
  then show "\<forall>s\<in>set (states reduceVideoTracks initialVideoTracks evs).
       idsMatch (VideoTracks.byId s) (VideoTracks.allIds s)"
    using states_invariant
      [where P = "\<lambda>s. idsMatch (VideoTracks.byId s) (VideoTracks.allIds s)"
         and ok = patchKnownVideoTracks and r = "reduceVideoTracks" and s = initialVideoTracks and evs = evs]
      idsMatch_initial(4) idsMatch_reduceVideoTracks
    by simp
qed

text \<open>The example events satisfy the condition, and the final states are consistent.\<close>

theorem allIds_match_byId_witness:
  "admissible patchKnownCustomGroupPositions reduceCustomGroupPositions
      initialCustomGroupPositions exampleEvents
   \<and> admissible patchKnownCustomStageMemberVolumes reduceCustomStageMemberVolumes
      initialCustomStageMemberVolumes exampleEvents
   \<and> admissible patchKnownDevices (reduceDevices (\<lambda>v. ''date'')) initialDevices exampleEvents
   \<and> admissible patchKnownVideoTracks reduceVideoTracks initialVideoTracks exampleEvents
   \<and> idsMatch
        (CustomGroupPositions.byId
           (foldl reduceCustomGroupPositions initialCustomGroupPositions exampleEvents))
        (CustomGroupPositions.allIds
           (foldl reduceCustomGroupPositions initialCustomGroupPositions exampleEvents))
   \<and> idsMatch
        (CustomStageMemberVolumes.byId
           (foldl reduceCustomStageMemberVolumes initialCustomStageMemberVolumes exampleEvents))
        (CustomStageMemberVolumes.allIds
           (foldl reduceCustomStageMemberVolumes initialCustomStageMemberVolumes exampleEvents))
   \<and> idsMatch
        (Devices.byId (foldl (reduceDevices (\<lambda>v. ''date'')) initialDevices exampleEvents))
        (Devices.allIds (foldl (reduceDevices (\<lambda>v. ''date'')) initialDevices exampleEvents))
   \<and> idsMatch
        (VideoTracks.byId (foldl reduceVideoTracks initialVideoTracks exampleEvents))
        (VideoTracks.allIds (foldl reduceVideoTracks initialVideoTracks exampleEvents))"
  using allIds_match_byId_when_patches_known [of exampleEvents "\<lambda>v. ''date''"]
    exampleEvents_patchKnown(1,2,4) exampleEvents_patchKnown(3) [of "\<lambda>v. ''date''"]
    foldl_in_states [of reduceCustomGroupPositions initialCustomGroupPositions exampleEvents]
    foldl_in_states [of reduceCustomStageMemberVolumes initialCustomStageMemberVolumes exampleEvents]
    foldl_in_states [of "reduceDevices (\<lambda>v. ''date'')" initialDevices exampleEvents]
    foldl_in_states [of reduceVideoTracks initialVideoTracks exampleEvents]
  by simp

text \<open>
  C2 as stated fails: one changed event for an unknown id, applied to the initial state,
  leaves the key in \<open>byId\<close> and not in \<open>allIds\<close>.
\<close>

theorem allIds_match_byId_counterexample:
  "\<not> idsMatch
       (CustomGroupPositions.byId
          (reduceCustomGroupPositions initialCustomGroupPositions
             (CustomGroupPositionChanged [''_id'' \<mapsto> ''a'', ''x'' \<mapsto> ''5''])))
       (CustomGroupPositions.allIds
          (reduceCustomGroupPositions initialCustomGroupPositions
             (CustomGroupPositionChanged [''_id'' \<mapsto> ''a'', ''x'' \<mapsto> ''5''])))"
  by (simp add: idsMatch_def reduceCustomGroupPositions_def initialCustomGroupPositions_def
      propKey_def)

text \<open>
  C3 (evaluation at the failing input).  \<^verbatim>\<open>pauseProducer\<close> and \<^verbatim>\<open>resumeProducer\<close> do not
  look at the producer's pause state: \<^verbatim>\<open>pause\<close> issued twice in a row emits the
  pause-producer request twice, and the second call resolves when the server acknowledges
  it; \<^verbatim>\<open>resume\<close> on a running producer emits its request as well.  The consumer
  functions do have the guard: \<^verbatim>\<open>pauseConsumer\<close> on a paused consumer rejects and emits
  nothing.
\<close>

theorem pauseProducer_twice_emits_twice:
  "pauseProducer (Some None) \<lparr> producer_id = ''p1'', producer_paused = False, producer_closed = False \<rparr>
     = ([PauseProducer ''p1''],
        Resolved \<lparr> producer_id = ''p1'', producer_paused = True, producer_closed = False \<rparr>)
   \<and> pauseProducer (Some None) \<lparr> producer_id = ''p1'', producer_paused = True, producer_closed = False \<rparr>
     = ([PauseProducer ''p1''],
        Resolved \<lparr> producer_id = ''p1'', producer_paused = True, producer_closed = False \<rparr>)
   \<and> resumeProducer (Some None) \<lparr> producer_id = ''p1'', producer_paused = False, producer_closed = False \<rparr>
     = ([ResumeProducer ''p1''],
        Resolved \<lparr> producer_id = ''p1'', producer_paused = False, producer_closed = False \<rparr>)
   \<and> pauseConsumer (Some None) \<lparr> consumer_id = ''c1'', consumer_paused = True, consumer_closed = False \<rparr>
     = ([], Rejected ''Consumer is not paused'')"
  by (simp add: pauseProducer_def resumeProducer_def pauseConsumer_def jsTruthyStr_def)

text \<open>
  C4 (evaluation at the failing input).  The last known device record holds one
  microphone and no other device, in arrays allocated before the refresh; the browser
  enumerates the same microphone.  The three lists are equal to the known ones, yet
  \<^verbatim>\<open>refreshMediaDevices\<close> emits a change-device event that carries all three: the arrays
  of the enumeration are new, and \<^verbatim>\<open>!==\<close> on arrays compares identity.
\<close>

theorem refreshMediaDevices_emits_on_equal_lists:
  "refreshMediaDevices 3
     (Enumerates [\<lparr> kind = audioinput, deviceId = ''mic'', label = ''Microphone'' \<rparr>])
     \<lparr> inputAudioDevices =
         \<lparr> addr = 0, elems = [\<lparr> device_id = ''mic'', device_label = ''Microphone'' \<rparr>] \<rparr>,
       inputVideoDevices = \<lparr> addr = 1, elems = [] \<rparr>,
       outputAudioDevices = \<lparr> addr = 2, elems = [] \<rparr>,
       mediasoupDevice_id = ''d1'' \<rparr> True True
   = ([\<lparr> change_id = ''d1'',
         change_inputAudioDevices =
           Some \<lparr> addr = 4, elems = [\<lparr> device_id = ''mic'', device_label = ''Microphone'' \<rparr>] \<rparr>,
         change_inputVideoDevices = Some \<lparr> addr = 3, elems = [] \<rparr>,
         change_outputAudioDevices = Some \<lparr> addr = 5, elems = [] \<rparr> \<rparr>], Resolved True)"
  by (simp add: refreshMediaDevices_def enumerateDevices_def nextFree_def pushDevice_def
      webMediaDevice_def Let_def)

text \<open>
  C5 (amended).  For each of the four reducers and every state: a changed event whose id
  is not a key of \<open>byId\<close> is not a no-op, it stores the payload as a new record under that
  id; a changed event whose id is a key of \<open>byId\<close> stores the existing record with the
  payload's fields merged over it.
\<close>

theorem changed_unknown_id_stores_payload:
  "(CustomGroupPositions.byId s1 (propKey p ''_id'') = None \<longrightarrow>
      reduceCustomGroupPositions s1 (CustomGroupPositionChanged p) \<noteq> s1 \<and>
      CustomGroupPositions.byId (reduceCustomGroupPositions s1 (CustomGroupPositionChanged p))
        (propKey p ''_id'') = Some p)
   \<and> (CustomGroupPositions.byId s1 (propKey p ''_id'') = Some old1 \<longrightarrow>
      CustomGroupPositions.byId (reduceCustomGroupPositions s1 (CustomGroupPositionChanged p))
        (propKey p ''_id'') = Some (old1 ++ p))
   \<and> (CustomStageMemberVolumes.byId s2 (propKey p ''_id'') = None \<longrightarrow>
      reduceCustomStageMemberVolumes s2 (CustomStageMemberVolumeChanged p) \<noteq> s2 \<and>
      CustomStageMemberVolumes.byId
        (reduceCustomStageMemberVolumes s2 (CustomStageMemberVolumeChanged p))
        (propKey p ''_id'') = Some p)
   \<and> (CustomStageMemberVolumes.byId s2 (propKey p ''_id'') = Some old2 \<longrightarrow>
      CustomStageMemberVolumes.byId
        (reduceCustomStageMemberVolumes s2 (CustomStageMemberVolumeChanged p))
        (propKey p ''_id'') = Some (old2 ++ p))
   \<and> (Devices.byId s3 (propKey p ''_id'') = None \<longrightarrow>
      reduceDevices newDate s3 (DeviceChanged p) \<noteq> s3 \<and>
      Devices.byId (reduceDevices newDate s3 (DeviceChanged p)) (propKey p ''_id'') = Some p)
   \<and> (Devices.byId s3 (propKey p ''_id'') = Some old3 \<longrightarrow>
      Devices.byId (reduceDevices newDate s3 (DeviceChanged p)) (propKey p ''_id'')
        = Some (old3 ++ p))
   \<and> (VideoTracks.byId s4 (propKey p ''_id'') = None \<longrightarrow>
      reduceVideoTracks s4 (VideoTrackChanged p) \<noteq> s4 \<and>
      VideoTracks.byId (reduceVideoTracks s4 (VideoTrackChanged p)) (propKey p ''_id'') = Some p)
   \<and> (VideoTracks.byId s4 (propKey p ''_id'') = Some old4 \<longrightarrow>
      VideoTracks.byId (reduceVideoTracks s4 (VideoTrackChanged p)) (propKey p ''_id'')
        = Some (old4 ++ p))"
  by (simp add: stored_CustomGroupPositions stored_CustomStageMemberVolumes stored_Devices
      stored_VideoTracks changed_unknown_differs_CustomGroupPositions
      changed_unknown_differs_CustomStageMemberVolumes changed_unknown_differs_Devices
      changed_unknown_differs_VideoTracks)

text \<open>Both cases at the example patch, in the initial states and after the entity was added.\<close>

theorem changed_unknown_id_witness:
  "CustomGroupPositions.byId initialCustomGroupPositions (propKey examplePatch ''_id'') = None
   \<and> reduceCustomGroupPositions initialCustomGroupPositions (CustomGroupPositionChanged examplePatch)
       \<noteq> initialCustomGroupPositions
   \<and> CustomStageMemberVolumes.byId initialCustomStageMemberVolumes (propKey examplePatch ''_id'') = None
   \<and> reduceCustomStageMemberVolumes initialCustomStageMemberVolumes
         (CustomStageMemberVolumeChanged examplePatch) \<noteq> initialCustomStageMemberVolumes
   \<and> Devices.byId initialDevices (propKey examplePatch ''_id'') = None
   \<and> reduceDevices (\<lambda>v. ''date'') initialDevices (DeviceChanged examplePatch) \<noteq> initialDevices
   \<and> VideoTracks.byId initialVideoTracks (propKey examplePatch ''_id'') = None
   \<and> reduceVideoTracks initialVideoTracks (VideoTrackChanged examplePatch) \<noteq> initialVideoTracks
   \<and> CustomGroupPositions.byId (addCustomGroupPosition initialCustomGroupPositions exampleEntity)
        (propKey examplePatch ''_id'') = Some exampleEntity
   \<and> CustomGroupPositions.byId
        (reduceCustomGroupPositions (addCustomGroupPosition initialCustomGroupPositions exampleEntity)
           (CustomGroupPositionChanged examplePatch)) (propKey examplePatch ''_id'')
       = Some (exampleEntity ++ examplePatch)
   \<and> CustomStageMemberVolumes.byId
        (addCustomStageMemberVolume initialCustomStageMemberVolumes exampleEntity)
        (propKey examplePatch ''_id'') = Some exampleEntity
   \<and> CustomStageMemberVolumes.byId
        (reduceCustomStageMemberVolumes
           (addCustomStageMemberVolume initialCustomStageMemberVolumes exampleEntity)
           (CustomStageMemberVolumeChanged examplePatch)) (propKey examplePatch ''_id'')
       = Some (exampleEntity ++ examplePatch)
   \<and> Devices.byId (reduceDevices (\<lambda>v. ''date'') initialDevices (DeviceAdded exampleEntity))
        (propKey examplePatch ''_id'')
       = Some (exampleEntity(''createdAt'' \<mapsto> ''date'', ''lastLoginAt'' \<mapsto> ''date''))
   \<and> Devices.byId
        (reduceDevices (\<lambda>v. ''date'') (reduceDevices (\<lambda>v. ''date'') initialDevices (DeviceAdded exampleEntity))
           (DeviceChanged examplePatch)) (propKey examplePatch ''_id'')
       = Some (exampleEntity(''createdAt'' \<mapsto> ''date'', ''lastLoginAt'' \<mapsto> ''date'')
                 ++ examplePatch)
   \<and> VideoTracks.byId (addVideoTrack initialVideoTracks exampleEntity)
        (propKey examplePatch ''_id'') = Some exampleEntity
   \<and> VideoTracks.byId
        (reduceVideoTracks (addVideoTrack initialVideoTracks exampleEntity)
           (VideoTrackChanged examplePatch)) (propKey examplePatch ''_id'')
       = Some (exampleEntity ++ examplePatch)"
proof -
  have key: "propKey examplePatch ''_id'' = ''a''" "propKey exampleEntity ''_id'' = ''a''"
    by (simp_all add: propKey_def examplePatch_def exampleEntity_def)
  have unknown:
    "CustomGroupPositions.byId initialCustomGroupPositions (propKey examplePatch ''_id'') = None"
    "CustomStageMemberVolumes.byId initialCustomStageMemberVolumes (propKey examplePatch ''_id'') = None"
    "Devices.byId initialDevices (propKey examplePatch ''_id'') = None"
    "VideoTracks.byId initialVideoTracks (propKey examplePatch ''_id'') = None"
    by (simp_all add: initialCustomGroupPositions_def initialCustomStageMemberVolumes_def
        initialDevices_def initialVideoTracks_def)
  have known:
    "CustomGroupPositions.byId (addCustomGroupPosition initialCustomGroupPositions exampleEntity)
        (propKey examplePatch ''_id'') = Some exampleEntity"
    "CustomStageMemberVolumes.byId
        (addCustomStageMemberVolume initialCustomStageMemberVolumes exampleEntity)
        (propKey examplePatch ''_id'') = Some exampleEntity"
    "Devices.byId (reduceDevices (\<lambda>v. ''date'') initialDevices (DeviceAdded exampleEntity))
        (propKey examplePatch ''_id'')
       = Some (exampleEntity(''createdAt'' \<mapsto> ''date'', ''lastLoginAt'' \<mapsto> ''date''))"
    "VideoTracks.byId (addVideoTrack initialVideoTracks exampleEntity)
        (propKey examplePatch ''_id'') = Some exampleEntity"
    by (simp_all add: key byId_addCustomGroupPosition byId_addCustomStageMemberVolume
        byId_addVideoTrack reduceDevices_def)
  show ?thesis
    using changed_unknown_id_stores_payload
      [of initialCustomGroupPositions examplePatch _ initialCustomStageMemberVolumes _
        initialDevices "\<lambda>v. ''date''" _ initialVideoTracks]
      changed_unknown_id_stores_payload
      [of "addCustomGroupPosition initialCustomGroupPositions exampleEntity" examplePatch
        exampleEntity "addCustomStageMemberVolume initialCustomStageMemberVolumes exampleEntity"
        exampleEntity "reduceDevices (\<lambda>v. ''date'') initialDevices (DeviceAdded exampleEntity)"
        "\<lambda>v. ''date''"
        "exampleEntity(''createdAt'' \<mapsto> ''date'', ''lastLoginAt'' \<mapsto> ''date'')"
        "addVideoTrack initialVideoTracks exampleEntity"
        exampleEntity]
      unknown known
    by simp
qed

text \<open>C5 as stated fails: patching the unknown id \<open>a\<close> changes the initial state.\<close>

theorem changed_unknown_id_counterexample:
  "reduceCustomGroupPositions initialCustomGroupPositions
       (CustomGroupPositionChanged [''_id'' \<mapsto> ''a'', ''x'' \<mapsto> ''5''])
     \<noteq> initialCustomGroupPositions
   \<and> CustomGroupPositions.byId
       (reduceCustomGroupPositions initialCustomGroupPositions
          (CustomGroupPositionChanged [''_id'' \<mapsto> ''a'', ''x'' \<mapsto> ''5''])) ''a''
     = Some [''_id'' \<mapsto> ''a'', ''x'' \<mapsto> ''5'']
   \<and> CustomGroupPositions.byId initialCustomGroupPositions ''a'' = None"
proof -
  have unknown: "CustomGroupPositions.byId initialCustomGroupPositions
      (propKey [''_id'' \<mapsto> ''a'', ''x'' \<mapsto> ''5''] ''_id'') = None"
    by (simp add: initialCustomGroupPositions_def)
  have key: "propKey [''_id'' \<mapsto> ''a'', ''x'' \<mapsto> ''5''] ''_id'' = ''a''"
    by (simp add: propKey_def)
  show ?thesis
    using changed_unknown_differs_CustomGroupPositions [OF unknown] unknown
    by (simp add: changed_CustomGroupPositions key)
qed

text \<open>
  C6 (evaluation at the failing input).  An override that is not muted and whose volume
  is 0 does not set the gain to 0: the chain falls through to the entity's own mute flag
  and volume, here 0.8.  An override with \<open>muted\<close> set silences the entity.
\<close>

theorem rendererGain_zero_override_volume_ignored:
  "AudioTrackRenderer_gain (Some \<lparr> volume = 0, muted = False \<rparr>) \<lparr> volume = 0.8, muted = False \<rparr> = 0.8
   \<and> GroupRenderer_gain (Some \<lparr> volume = 0, muted = False \<rparr>) \<lparr> volume = 0.8, muted = False \<rparr> = 0.8
   \<and> GroupRenderer_gain (Some \<lparr> volume = 1, muted = True \<rparr>) \<lparr> volume = 0.8, muted = False \<rparr> = 0"
  by (simp add: AudioTrackRenderer_gain_def GroupRenderer_gain_def rendererGain_def jsTruthyNum_def)

text \<open>
  C7 (amended).  When the server's create-consumer response reports \<open>paused\<close> and the
  transport creates the consumer, \<^verbatim>\<open>createConsumer\<close> resolves with the consumer paused.
  \<^verbatim>\<open>consume\<close> then emits a resume-consumer request for it: it resolves with the consumer
  resumed (pause state false) when the request is acknowledged, rejects when the server
  answers with an error, and stays pending when there is no answer.
\<close>

theorem consume_resumes_paused_consumer:
  assumes "createAck = Some (error, data)" and "\<not> jsTruthyStr error" and "data_paused data"
    and "transport_consume data = Some consumer"
  shows "createConsumer createAck transport_consume transportId producerId
           = ([CreateConsumer producerId transportId],
              Resolved (consumer\<lparr> consumer_paused := True \<rparr>))
       \<and> fst (consume createAck transport_consume resumeAck transportId producerId)
           = [CreateConsumer producerId transportId, ResumeConsumer (consumer_id consumer)]
       \<and> snd (consume createAck transport_consume resumeAck transportId producerId)
           = (case resumeAck of
                None \<Rightarrow> Pending
              | Some e \<Rightarrow> if jsTruthyStr e then Rejected (the e)
                          else Resolved (consumer\<lparr> consumer_paused := False \<rparr>))"
  using assms
  by (auto simp: consume_def createConsumer_def resumeConsumer_def split: option.splits)

theorem consume_resumes_paused_consumer_witness:
  "\<not> jsTruthyStr None
   \<and> data_paused exampleData
   \<and> exampleTransportConsume exampleData
       = Some \<lparr> consumer_id = ''c1'', consumer_paused = False, consumer_closed = False \<rparr>
   \<and> createConsumer (Some (None, exampleData)) exampleTransportConsume ''t1'' ''p1''
       = ([CreateConsumer ''p1'' ''t1''],
          Resolved \<lparr> consumer_id = ''c1'', consumer_paused = True, consumer_closed = False \<rparr>)
   \<and> consume (Some (None, exampleData)) exampleTransportConsume (Some None) ''t1'' ''p1''
       = ([CreateConsumer ''p1'' ''t1'', ResumeConsumer ''c1''],
          Resolved \<lparr> consumer_id = ''c1'', consumer_paused = False, consumer_closed = False \<rparr>)
   \<and> consume (Some (None, exampleData)) exampleTransportConsume (Some (Some ''refused''))
        ''t1'' ''p1''
       = ([CreateConsumer ''p1'' ''t1'', ResumeConsumer ''c1''], Rejected ''refused'')"
proof -
  have hyps: "\<not> jsTruthyStr None" "data_paused exampleData"
    "exampleTransportConsume exampleData
       = Some \<lparr> consumer_id = ''c1'', consumer_paused = False, consumer_closed = False \<rparr>"
    by (simp_all add: jsTruthyStr_def exampleData_def exampleTransportConsume_def)
  have truthy: "jsTruthyStr (Some ''refused'')"
    by (simp add: jsTruthyStr_def)
  show ?thesis
    using consume_resumes_paused_consumer
      [where createAck = "Some (None, exampleData)" and error = None and data = exampleData
         and transport_consume = exampleTransportConsume
         and consumer = "\<lparr> consumer_id = ''c1'', consumer_paused = False, consumer_closed = False \<rparr>"
         and resumeAck = "Some None" and transportId = "''t1''" and producerId = "''p1''"]
      consume_resumes_paused_consumer
      [where createAck = "Some (None, exampleData)" and error = None and data = exampleData
         and transport_consume = exampleTransportConsume
         and consumer = "\<lparr> consumer_id = ''c1'', consumer_paused = False, consumer_closed = False \<rparr>"
         and resumeAck = "Some (Some ''refused'')" and transportId = "''t1''"
         and producerId = "''p1''"]
      hyps truthy
    by (simp add: prod_eq_iff)
qed

text \<open>
  C7 as stated fails: the server reports \<open>paused\<close>, and the consumer that \<^verbatim>\<open>consume\<close>
  resolves with is not paused.
\<close>

theorem consume_paused_counterexample:
  "snd (consume (Some (None, exampleData)) exampleTransportConsume (Some None) ''t1'' ''p1'')
     = Resolved \<lparr> consumer_id = ''c1'', consumer_paused = False, consumer_closed = False \<rparr>
   \<and> data_paused exampleData"
  by (simp add: consume_def createConsumer_def resumeConsumer_def jsTruthyStr_def
      exampleData_def exampleTransportConsume_def)

text \<open>
  C8 (amended).  For every sequence of events in which each added or joined entity
  carries an id that is not stored yet (pairwise different within a join) and each changed
  event of a stored entity leaves its parent-reference fields as they are, and for each
  reducer with secondary indices started in its initial state: before the first and after
  every event, every bucket of every list-valued index is free of duplicates and holds
  only keys of \<open>byId\<close> (as do the ids of the compound index), and removing any id from
  such a state leaves that id in no secondary index.
\<close>

theorem secondary_indices_consistent_when_adds_fresh:
  "(admissible wellBehavedCustomGroupPositions reduceCustomGroupPositions
      initialCustomGroupPositions evs \<longrightarrow>
    (\<forall>s\<in>set (states reduceCustomGroupPositions initialCustomGroupPositions evs).
       bucketsAreSetsCustomGroupPositions s \<and>
       (\<forall>i. notRetainedCustomGroupPositions
              (reduceCustomGroupPositions s (CustomGroupPositionRemoved i)) i)))
   \<and> (admissible wellBehavedCustomStageMemberVolumes reduceCustomStageMemberVolumes
      initialCustomStageMemberVolumes evs \<longrightarrow>
    (\<forall>s\<in>set (states reduceCustomStageMemberVolumes initialCustomStageMemberVolumes evs).
       bucketsAreSetsCustomStageMemberVolumes s \<and>
       (\<forall>i. notRetainedCustomStageMemberVolumes
              (reduceCustomStageMemberVolumes s (CustomStageMemberVolumeRemoved i)) i)))
   \<and> (admissible wellBehavedVideoTracks reduceVideoTracks initialVideoTracks evs \<longrightarrow>
    (\<forall>s\<in>set (states reduceVideoTracks initialVideoTracks evs).
       bucketsAreSetsVideoTracks s \<and>
       (\<forall>i. notRetainedVideoTracks (reduceVideoTracks s (VideoTrackRemoved i)) i)))"
proof (intro conjI impI)
  assume "admissible wellBehavedCustomGroupPositions reduceCustomGroupPositions
      initialCustomGroupPositions evs"
  then have "\<forall>s\<in>set (states reduceCustomGroupPositions initialCustomGroupPositions evs).
      indexedCustomGroupPositions s"
    using states_invariant
      [where P = indexedCustomGroupPositions and ok = wellBehavedCustomGroupPositions
         and r = reduceCustomGroupPositions and s = initialCustomGroupPositions and evs = evs]
      indexed_initial(1) indexed_reduceCustomGroupPositions
    by simp
  then show "\<forall>s\<in>set (states reduceCustomGroupPositions initialCustomGroupPositions evs).
       bucketsAreSetsCustomGroupPositions s \<and>
       (\<forall>i. notRetainedCustomGroupPositions
              (reduceCustomGroupPositions s (CustomGroupPositionRemoved i)) i)"
    by (simp add: indexed_sets_CustomGroupPositions removed_notRetained_CustomGroupPositions)
next
  assume "admissible wellBehavedCustomStageMemberVolumes reduceCustomStageMemberVolumes
      initialCustomStageMemberVolumes evs"
  then have "\<forall>s\<in>set (states reduceCustomStageMemberVolumes initialCustomStageMemberVolumes evs).
      indexedCustomStageMemberVolumes s"
    using states_invariant
      [where P = indexedCustomStageMemberVolumes and ok = wellBehavedCustomStageMemberVolumes
         and r = reduceCustomStageMemberVolumes and s = initialCustomStageMemberVolumes
         and evs = evs]
      indexed_initial(2) indexed_reduceCustomStageMemberVolumes
    by simp
  then show "\<forall>s\<in>set (states reduceCustomStageMemberVolumes initialCustomStageMemberVolumes evs).
       bucketsAreSetsCustomStageMemberVolumes s \<and>
       (\<forall>i. notRetainedCustomStageMemberVolumes
              (reduceCustomStageMemberVolumes s (CustomStageMemberVolumeRemoved i)) i)"
    by (simp add: indexed_sets_CustomStageMemberVolumes
        removed_notRetained_CustomStageMemberVolumes)
next
  assume "admissible wellBehavedVideoTracks reduceVideoTracks initialVideoTracks evs"
  then have "\<forall>s\<in>set (states reduceVideoTracks initialVideoTracks evs). indexedVideoTracks s"
    using states_invariant
      [where P = indexedVideoTracks and ok = wellBehavedVideoTracks
         and r = reduceVideoTracks and s = initialVideoTracks and evs = evs]
      indexed_initial(3) indexed_reduceVideoTracks
    by simp
  then show "\<forall>s\<in>set (states reduceVideoTracks initialVideoTracks evs).
       bucketsAreSetsVideoTracks s \<and>
       (\<forall>i. notRetainedVideoTracks (reduceVideoTracks s (VideoTrackRemoved i)) i)"
    by (simp add: indexed_sets_VideoTracks removed_notRetained_VideoTracks)
qed

text \<open>The example events satisfy the condition; the final states and a removal.\<close>

theorem secondary_indices_witness:
  "admissible wellBehavedCustomGroupPositions reduceCustomGroupPositions
      initialCustomGroupPositions exampleEvents
   \<and> admissible wellBehavedCustomStageMemberVolumes reduceCustomStageMemberVolumes
      initialCustomStageMemberVolumes exampleEvents
   \<and> admissible wellBehavedVideoTracks reduceVideoTracks initialVideoTracks exampleEvents
   \<and> bucketsAreSetsCustomGroupPositions
        (foldl reduceCustomGroupPositions initialCustomGroupPositions exampleEvents)
   \<and> notRetainedCustomGroupPositions
        (reduceCustomGroupPositions
           (foldl reduceCustomGroupPositions initialCustomGroupPositions exampleEvents)
           (CustomGroupPositionRemoved ''b'')) ''b''
   \<and> bucketsAreSetsCustomStageMemberVolumes
        (foldl reduceCustomStageMemberVolumes initialCustomStageMemberVolumes exampleEvents)
   \<and> notRetainedCustomStageMemberVolumes
        (reduceCustomStageMemberVolumes
           (foldl reduceCustomStageMemberVolumes initialCustomStageMemberVolumes exampleEvents)
           (CustomStageMemberVolumeRemoved ''v'')) ''v''
   \<and> bucketsAreSetsVideoTracks (foldl reduceVideoTracks initialVideoTracks exampleEvents)
   \<and> notRetainedVideoTracks
        (reduceVideoTracks (foldl reduceVideoTracks initialVideoTracks exampleEvents)
           (VideoTrackRemoved ''t'')) ''t''"
  using secondary_indices_consistent_when_adds_fresh [of exampleEvents]
    exampleEvents_wellBehaved
    foldl_in_states [of reduceCustomGroupPositions initialCustomGroupPositions exampleEvents]
    foldl_in_states [of reduceCustomStageMemberVolumes initialCustomStageMemberVolumes exampleEvents]
    foldl_in_states [of reduceVideoTracks initialVideoTracks exampleEvents]
  by simp

text \<open>
  C8 as stated fails.  Adding the same custom group position twice puts its id twice into
  the bucket of its group.  And after a patch has changed the group of a stored position,
  removing the position leaves its id in the bucket of the former group.
\<close>

theorem secondary_indices_counterexample:
  "CustomGroupPositions.byGroup
      (foldl reduceCustomGroupPositions initialCustomGroupPositions
         [CustomGroupPositionAdded exampleEntity, CustomGroupPositionAdded exampleEntity]) ''g1''
     = Some [''a'', ''a'']
   \<and> \<not> bucketsAreSetsCustomGroupPositions
      (foldl reduceCustomGroupPositions initialCustomGroupPositions
         [CustomGroupPositionAdded exampleEntity, CustomGroupPositionAdded exampleEntity])
   \<and> CustomGroupPositions.byGroup
      (foldl reduceCustomGroupPositions initialCustomGroupPositions
         [CustomGroupPositionAdded exampleEntity,
          CustomGroupPositionChanged [''_id'' \<mapsto> ''a'', ''groupId'' \<mapsto> ''g2''],
          CustomGroupPositionRemoved ''a'']) ''g1''
     = Some [''a'']
   \<and> \<not> notRetainedCustomGroupPositions
      (foldl reduceCustomGroupPositions initialCustomGroupPositions
         [CustomGroupPositionAdded exampleEntity,
          CustomGroupPositionChanged [''_id'' \<mapsto> ''a'', ''groupId'' \<mapsto> ''g2''],
          CustomGroupPositionRemoved ''a'']) ''a''"
proof -
  have twice: "CustomGroupPositions.byGroup
      (foldl reduceCustomGroupPositions initialCustomGroupPositions
         [CustomGroupPositionAdded exampleEntity, CustomGroupPositionAdded exampleEntity]) ''g1''
     = Some [''a'', ''a'']"
    by (simp add: reduceCustomGroupPositions_def addCustomGroupPosition_def
        initialCustomGroupPositions_def propKey_def exampleEntity_def)
  have stale: "CustomGroupPositions.byGroup
      (foldl reduceCustomGroupPositions initialCustomGroupPositions
         [CustomGroupPositionAdded exampleEntity,
          CustomGroupPositionChanged [''_id'' \<mapsto> ''a'', ''groupId'' \<mapsto> ''g2''],
          CustomGroupPositionRemoved ''a'']) ''g1''
     = Some [''a'']"
    by (simp add: reduceCustomGroupPositions_def addCustomGroupPosition_def
        initialCustomGroupPositions_def propKey_def exampleEntity_def spread_def without_def)
  from twice have "\<not> bucketsAreSetsCustomGroupPositions
      (foldl reduceCustomGroupPositions initialCustomGroupPositions
         [CustomGroupPositionAdded exampleEntity, CustomGroupPositionAdded exampleEntity])"
    unfolding bucketsAreSetsCustomGroupPositions_def bucketSets_def by fastforce
  moreover from stale have "\<not> notRetainedCustomGroupPositions
      (foldl reduceCustomGroupPositions initialCustomGroupPositions
         [CustomGroupPositionAdded exampleEntity,
          CustomGroupPositionChanged [''_id'' \<mapsto> ''a'', ''groupId'' \<mapsto> ''g2''],
          CustomGroupPositionRemoved ''a'']) ''a''"
    unfolding notRetainedCustomGroupPositions_def absentFrom_def by fastforce
  ultimately show ?thesis
    using twice stale by simp
qed

text \<open>
  C9 (amended).  Once the device object is constructed, \<^verbatim>\<open>connect\<close> rejects when the
  capabilities request is answered with an error, when loading the capabilities fails,
  and when one or both create-transport requests are answered with an error.  When
  instead the device throws while it makes a transport from an error-free answer,
  \<^verbatim>\<open>connect\<close> does not reject: the promise of that transport never settles, and unless
  the other request is answered with an error \<^verbatim>\<open>connect\<close> stays pending.  It tears
  nothing down: a transport that was made when the other one failed exists afterwards and
  is not closed; no transport that exists after \<^verbatim>\<open>connect\<close> is closed, and \<^verbatim>\<open>connect\<close>
  never emits a close-transport request.  (When the constructor of the device throws,
  \<^verbatim>\<open>connect\<close> throws before it emits anything.)
\<close>

theorem connect_rejects_without_teardown:
  "connect (Some thrown) capsAck device_load device_creates sendAck receiveAck receiveFirst
     = Throws thrown
   \<and> (jsTruthyStr capsError \<longrightarrow>
      connect None (Some (capsError, caps)) device_load device_creates sendAck receiveAck
          receiveFirst
        = Returns ([GetRTPCapabilities], [], Rejected (the capsError)))
   \<and> (\<not> jsTruthyStr capsError \<longrightarrow> device_load caps = Some e \<longrightarrow>
      connect None (Some (capsError, caps)) device_load device_creates sendAck receiveAck
          receiveFirst
        = Returns ([GetRTPCapabilities], [], Rejected e))
   \<and> (\<not> jsTruthyStr capsError \<longrightarrow> device_load caps = None \<longrightarrow>
      \<not> jsTruthyStr sendError \<longrightarrow> jsTruthyStr receiveError \<longrightarrow>
      connect None (Some (capsError, caps)) device_load device_creates
          (Some (sendError, sendOptions)) (Some (receiveError, receiveOptions)) receiveFirst
        = Returns ([GetRTPCapabilities, CreateTransport, CreateTransport],
           (if device_creates Send sendOptions then [openTransport Send sendOptions] else []),
           Rejected (the receiveError)))
   \<and> (\<not> jsTruthyStr capsError \<longrightarrow> device_load caps = None \<longrightarrow>
      jsTruthyStr sendError \<longrightarrow> \<not> jsTruthyStr receiveError \<longrightarrow>
      connect None (Some (capsError, caps)) device_load device_creates
          (Some (sendError, sendOptions)) (Some (receiveError, receiveOptions)) receiveFirst
        = Returns ([GetRTPCapabilities, CreateTransport, CreateTransport],
           (if device_creates Receive receiveOptions then [openTransport Receive receiveOptions]
            else []),
           Rejected (the sendError)))
   \<and> (\<not> jsTruthyStr capsError \<longrightarrow> device_load caps = None \<longrightarrow>
      jsTruthyStr sendError \<longrightarrow> jsTruthyStr receiveError \<longrightarrow>
      connect None (Some (capsError, caps)) device_load device_creates
          (Some (sendError, sendOptions)) (Some (receiveError, receiveOptions)) receiveFirst
        = Returns ([GetRTPCapabilities, CreateTransport, CreateTransport], [],
           Rejected (if receiveFirst then the receiveError else the sendError)))
   \<and> (\<not> jsTruthyStr capsError \<longrightarrow> device_load caps = None \<longrightarrow>
      \<not> jsTruthyStr sendError \<longrightarrow> \<not> jsTruthyStr receiveError \<longrightarrow>
      \<not> (device_creates Send sendOptions \<and> device_creates Receive receiveOptions) \<longrightarrow>
      connect None (Some (capsError, caps)) device_load device_creates
          (Some (sendError, sendOptions)) (Some (receiveError, receiveOptions)) receiveFirst
        = Returns ([GetRTPCapabilities, CreateTransport, CreateTransport],
           (if device_creates Send sendOptions then [openTransport Send sendOptions] else [])
           @ (if device_creates Receive receiveOptions then [openTransport Receive receiveOptions]
              else []),
           Pending))
   \<and> (connect newDevice capsAck device_load device_creates sendAck receiveAck receiveFirst
        = Returns (reqs, transports, outcome) \<longrightarrow>
      (\<forall>t\<in>set transports. \<not> transport_closed t) \<and> CloseTransport transportId \<notin> set reqs)"
proof -
  have "(\<forall>t\<in>set transports. \<not> transport_closed t) \<and> CloseTransport transportId \<notin> set reqs"
    if "connect newDevice capsAck device_load device_creates sendAck receiveAck receiveFirst
        = Returns (reqs, transports, outcome)"
    using connect_created_open [OF that] connect_requests [OF that] by auto
  then show ?thesis
    by (simp add: connect_def getRTPCapabilities_def createWebRTCTransport_def openTransport_def)
qed

theorem connect_rejects_without_teardown_witness:
  "jsTruthyStr (Some ''no capabilities'')
   \<and> connect None (Some (Some ''no capabilities'', ''caps'')) (\<lambda>c. None) (\<lambda>d opts. True)
        None None False
        = Returns ([GetRTPCapabilities], [], Rejected ''no capabilities'')
   \<and> \<not> jsTruthyStr None
   \<and> connect None (Some (None, ''caps'')) (\<lambda>c. Some ''cannot load'') (\<lambda>d opts. True)
        None None False
        = Returns ([GetRTPCapabilities], [], Rejected ''cannot load'')
   \<and> jsTruthyStr (Some ''no transport'')
   \<and> connect None (Some (None, ''caps'')) (\<lambda>c. None) (\<lambda>d opts. True)
          (Some (None, \<lparr> options_id = ''t1'' \<rparr>))
          (Some (Some ''no transport'', \<lparr> options_id = [] \<rparr>)) False
        = Returns ([GetRTPCapabilities, CreateTransport, CreateTransport],
           [openTransport Send \<lparr> options_id = ''t1'' \<rparr>], Rejected ''no transport'')
   \<and> connect None (Some (None, ''caps'')) (\<lambda>c. None) (\<lambda>d opts. True)
          (Some (Some ''no transport'', \<lparr> options_id = [] \<rparr>))
          (Some (None, \<lparr> options_id = ''t2'' \<rparr>)) False
        = Returns ([GetRTPCapabilities, CreateTransport, CreateTransport],
           [openTransport Receive \<lparr> options_id = ''t2'' \<rparr>], Rejected ''no transport'')
   \<and> connect None (Some (None, ''caps'')) (\<lambda>c. None) (\<lambda>d opts. True)
          (Some (Some ''no transport'', \<lparr> options_id = [] \<rparr>))
          (Some (Some ''no transport'', \<lparr> options_id = [] \<rparr>)) False
        = Returns ([GetRTPCapabilities, CreateTransport, CreateTransport], [],
           Rejected ''no transport'')
   \<and> connect None (Some (None, ''caps'')) (\<lambda>c. None) (\<lambda>d opts. d = Send)
          (Some (None, \<lparr> options_id = ''t1'' \<rparr>)) (Some (None, \<lparr> options_id = ''t2'' \<rparr>)) False
        = Returns ([GetRTPCapabilities, CreateTransport, CreateTransport],
           [openTransport Send \<lparr> options_id = ''t1'' \<rparr>], Pending)
   \<and> \<not> transport_closed (openTransport Send \<lparr> options_id = ''t1'' \<rparr>)
   \<and> CloseTransport ''t1'' \<notin> set [GetRTPCapabilities, CreateTransport, CreateTransport]"
proof -
  have truthy: "jsTruthyStr (Some ''no capabilities'')" "jsTruthyStr (Some ''no transport'')"
    "\<not> jsTruthyStr None"
    by (simp_all add: jsTruthyStr_def)
  have refused: "connect None (Some (None, ''caps'')) (\<lambda>c. None) (\<lambda>d opts. True)
          (Some (None, \<lparr> options_id = ''t1'' \<rparr>))
          (Some (Some ''no transport'', \<lparr> options_id = [] \<rparr>)) False
        = Returns ([GetRTPCapabilities, CreateTransport, CreateTransport],
           [openTransport Send \<lparr> options_id = ''t1'' \<rparr>], Rejected ''no transport'')"
    using connect_rejects_without_teardown
      [where capsError = None and caps = "''caps''" and device_load = "\<lambda>c. None"
         and device_creates = "\<lambda>d opts. True" and sendError = None
         and receiveError = "Some ''no transport''"
         and sendOptions = "\<lparr> options_id = ''t1'' \<rparr>"
         and receiveOptions = "\<lparr> options_id = [] \<rparr>" and receiveFirst = False]
      truthy
    by simp
  have kept: "\<not> transport_closed (openTransport Send \<lparr> options_id = ''t1'' \<rparr>)
      \<and> CloseTransport ''t1'' \<notin> set [GetRTPCapabilities, CreateTransport, CreateTransport]"
    using connect_rejects_without_teardown
      [where newDevice = None and capsAck = "Some (None, ''caps'')" and device_load = "\<lambda>c. None"
         and device_creates = "\<lambda>d opts. True"
         and sendAck = "Some (None, \<lparr> options_id = ''t1'' \<rparr>)"
         and receiveAck = "Some (Some ''no transport'', \<lparr> options_id = [] \<rparr>)"
         and receiveFirst = False
         and reqs = "[GetRTPCapabilities, CreateTransport, CreateTransport]"
         and transports = "[openTransport Send \<lparr> options_id = ''t1'' \<rparr>]"
         and outcome = "Rejected ''no transport''" and transportId = "''t1''"]
      refused
    by simp
  show ?thesis
    using connect_rejects_without_teardown
      [where capsError = "Some ''no capabilities''" and caps = "''caps''"
         and device_load = "\<lambda>c. None" and device_creates = "\<lambda>d opts. True"
         and sendAck = None and receiveAck = None and receiveFirst = False]
      connect_rejects_without_teardown
      [where capsError = None and caps = "''caps''" and device_load = "\<lambda>c. Some ''cannot load''"
         and device_creates = "\<lambda>d opts. True" and sendAck = None and receiveAck = None
         and receiveFirst = False and e = "''cannot load''"]
      connect_rejects_without_teardown
      [where capsError = None and caps = "''caps''" and device_load = "\<lambda>c. None"
         and device_creates = "\<lambda>d opts. True" and sendError = "Some ''no transport''"
         and receiveError = None
         and sendOptions = "\<lparr> options_id = [] \<rparr>"
         and receiveOptions = "\<lparr> options_id = ''t2'' \<rparr>" and receiveFirst = False]
      connect_rejects_without_teardown
      [where capsError = None and caps = "''caps''" and device_load = "\<lambda>c. None"
         and device_creates = "\<lambda>d opts. True" and sendError = "Some ''no transport''"
         and receiveError = "Some ''no transport''"
         and sendOptions = "\<lparr> options_id = [] \<rparr>"
         and receiveOptions = "\<lparr> options_id = [] \<rparr>" and receiveFirst = False]
      connect_rejects_without_teardown
      [where capsError = None and caps = "''caps''" and device_load = "\<lambda>c. None"
         and device_creates = "\<lambda>d opts. d = Send" and sendError = None
         and receiveError = None
         and sendOptions = "\<lparr> options_id = ''t1'' \<rparr>"
         and receiveOptions = "\<lparr> options_id = ''t2'' \<rparr>" and receiveFirst = False]
      truthy refused kept
    by simp
qed

text \<open>
  C9 as stated fails.  The send transport is made, the receive transport is refused, and
  after the rejection the send transport is still open.  And when both requests are
  answered without error but the device throws while making the receive transport,
  \<^verbatim>\<open>connect\<close> does not reject at all: it stays pending, with the send transport open.
\<close>

theorem connect_teardown_counterexample:
  "connect None (Some (None, ''caps'')) (\<lambda>c. None) (\<lambda>d opts. True)
      (Some (None, \<lparr> options_id = ''t1'' \<rparr>))
      (Some (Some ''no transport'', \<lparr> options_id = [] \<rparr>)) False
     = Returns ([GetRTPCapabilities, CreateTransport, CreateTransport],
        [\<lparr> transport_id = ''t1'', direction = Send, transport_closed = False \<rparr>],
        Rejected ''no transport'')
   \<and> connect None (Some (None, ''caps'')) (\<lambda>c. None) (\<lambda>d opts. d = Send)
      (Some (None, \<lparr> options_id = ''t1'' \<rparr>)) (Some (None, \<lparr> options_id = ''t2'' \<rparr>)) False
     = Returns ([GetRTPCapabilities, CreateTransport, CreateTransport],
        [\<lparr> transport_id = ''t1'', direction = Send, transport_closed = False \<rparr>],
        Pending)"
  by (simp add: connect_def getRTPCapabilities_def createWebRTCTransport_def jsTruthyStr_def)

text \<open>
  C10.  For each of the four reducers, every state and every changed event, whatever
  fields the payload carries: every secondary index and \<open>allIds\<close> are unchanged, and
  \<open>byId\<close> is unchanged at every key other than the id of the payload.
\<close>

theorem changed_touches_only_byId_entry:
  "CustomGroupPositions.byGroup (reduceCustomGroupPositions s1 (CustomGroupPositionChanged p))
     = CustomGroupPositions.byGroup s1
   \<and> CustomGroupPositions.byDevice (reduceCustomGroupPositions s1 (CustomGroupPositionChanged p))
     = CustomGroupPositions.byDevice s1
   \<and> CustomGroupPositions.byDeviceAndGroup
       (reduceCustomGroupPositions s1 (CustomGroupPositionChanged p))
     = CustomGroupPositions.byDeviceAndGroup s1
   \<and> CustomGroupPositions.allIds (reduceCustomGroupPositions s1 (CustomGroupPositionChanged p))
     = CustomGroupPositions.allIds s1
   \<and> CustomGroupPositions.byId (reduceCustomGroupPositions s1 (CustomGroupPositionChanged p))
        |` (- {propKey p ''_id''})
     = CustomGroupPositions.byId s1 |` (- {propKey p ''_id''})
   \<and> CustomStageMemberVolumes.byStageMember
       (reduceCustomStageMemberVolumes s2 (CustomStageMemberVolumeChanged p))
     = CustomStageMemberVolumes.byStageMember s2
   \<and> CustomStageMemberVolumes.byDevice
       (reduceCustomStageMemberVolumes s2 (CustomStageMemberVolumeChanged p))
     = CustomStageMemberVolumes.byDevice s2
   \<and> CustomStageMemberVolumes.byDeviceAndStageMember
       (reduceCustomStageMemberVolumes s2 (CustomStageMemberVolumeChanged p))
     = CustomStageMemberVolumes.byDeviceAndStageMember s2
   \<and> CustomStageMemberVolumes.allIds
       (reduceCustomStageMemberVolumes s2 (CustomStageMemberVolumeChanged p))
     = CustomStageMemberVolumes.allIds s2
   \<and> CustomStageMemberVolumes.byId
       (reduceCustomStageMemberVolumes s2 (CustomStageMemberVolumeChanged p))
        |` (- {propKey p ''_id''})
     = CustomStageMemberVolumes.byId s2 |` (- {propKey p ''_id''})
   \<and> Devices.allIds (reduceDevices newDate s3 (DeviceChanged p)) = Devices.allIds s3
   \<and> Devices.byId (reduceDevices newDate s3 (DeviceChanged p)) |` (- {propKey p ''_id''})
     = Devices.byId s3 |` (- {propKey p ''_id''})
   \<and> VideoTracks.byStageMember (reduceVideoTracks s4 (VideoTrackChanged p))
     = VideoTracks.byStageMember s4
   \<and> VideoTracks.byStageDevice (reduceVideoTracks s4 (VideoTrackChanged p))
     = VideoTracks.byStageDevice s4
   \<and> VideoTracks.byStage (reduceVideoTracks s4 (VideoTrackChanged p)) = VideoTracks.byStage s4
   \<and> VideoTracks.byUser (reduceVideoTracks s4 (VideoTrackChanged p)) = VideoTracks.byUser s4
   \<and> VideoTracks.allIds (reduceVideoTracks s4 (VideoTrackChanged p)) = VideoTracks.allIds s4
   \<and> VideoTracks.byId (reduceVideoTracks s4 (VideoTrackChanged p)) |` (- {propKey p ''_id''})
     = VideoTracks.byId s4 |` (- {propKey p ''_id''})"
  by (simp add: changed_CustomGroupPositions changed_CustomStageMemberVolumes changed_Devices
      changed_VideoTracks)

end
